theory Spec2Isabelle
  imports Complex_Main "HOL-Library.Sublist"
begin

section \<open>Go values shared by the packages\<close>

text \<open>
  A Go function that may panic, return an error or return a value is modelled by a
  three-way result, so that a run-time panic is a value of the model and not an
  unspecified HOL term.
\<close>

datatype ('e, 'a) go_result = Panic string | Err 'e | Ok 'a

text \<open>\<open>strings.HasSuffix(s, suffix)\<close>:
  \<open>len(s) >= len(suffix) && s[len(s)-len(suffix):] == suffix\<close>.\<close>

definition HasSuffix :: "string \<Rightarrow> string \<Rightarrow> bool" where
  "HasSuffix s suf \<longleftrightarrow>
     length suf \<le> length s \<and> drop (length s - length suf) s = suf"

text \<open>\<open>strings.SplitN(s, " ", 2)\<close>: at most two parts, cut at the first space; a
  string without a space is returned whole, as the only part.\<close>

definition SplitN_space_2 :: "string \<Rightarrow> string list" where
  "SplitN_space_2 s =
     (if CHR '' '' \<in> set s
      then [takeWhile (\<lambda>c. c \<noteq> CHR '' '') s, tl (dropWhile (\<lambda>c. c \<noteq> CHR '' '') s)]
      else [s])"


section \<open>internal/worker/validator: the validation result\<close>

record ValidationError =
  E_Code :: string
  E_Message :: string
  E_Field :: string

record ValidationWarning =
  W_Code :: string
  W_Message :: string
  W_Field :: string

text \<open>The fields \<open>MediaInfo\<close> and \<open>ValidationDuration\<close> of the Go struct are written
  by neither \<open>addError\<close> nor \<open>addWarning\<close> and are left out.\<close>

record ValidationResult =
  Valid :: bool
  Errors :: "ValidationError list"
  Warnings :: "ValidationWarning list"

definition addError :: "string \<Rightarrow> string \<Rightarrow> string \<Rightarrow> ValidationResult \<Rightarrow> ValidationResult" where
  "addError code message field r =
     r\<lparr>Valid := False,
       Errors := Errors r @ [\<lparr>E_Code = code, E_Message = message, E_Field = field\<rparr>]\<rparr>"

definition addWarning :: "string \<Rightarrow> string \<Rightarrow> string \<Rightarrow> ValidationResult \<Rightarrow> ValidationResult" where
  "addWarning code message field r =
     r\<lparr>Warnings := Warnings r @ [\<lparr>W_Code = code, W_Message = message, W_Field = field\<rparr>]\<rparr>"

text \<open>The result \<open>Validate\<close> starts from: \<open>&ValidationResult{Valid: true}\<close>.\<close>

definition initial_result :: ValidationResult where
  "initial_result = \<lparr>Valid = True, Errors = [], Warnings = []\<rparr>"

text \<open>A mutation of the result: one call of \<open>addError\<close> or of \<open>addWarning\<close>.
  A list of them is an interleaving of the two operations.\<close>

datatype mutation = AddError string string string | AddWarning string string string

fun apply_mutation :: "mutation \<Rightarrow> ValidationResult \<Rightarrow> ValidationResult" where
  "apply_mutation (AddError c m f) r = addError c m f r"
| "apply_mutation (AddWarning c m f) r = addWarning c m f r"

definition apply_mutations :: "mutation list \<Rightarrow> ValidationResult \<Rightarrow> ValidationResult" where
  "apply_mutations ms r = foldl (\<lambda>r m. apply_mutation m r) r ms"


subsection \<open>The existence check\<close>

text \<open>What \<open>os.Stat\<close> and \<open>os.ReadDir\<close> report for a path: the path does not exist,
  \<open>Stat\<close> fails for another reason, the path is a directory (whose listing fails, or
  has the given number of entries), or it is a file of the given size.\<close>

datatype path_state =
    NotExist
  | StatError string
  | DirUnreadable string
  | Dir nat
  | File nat

text \<open>\<open>validateFileExists\<close> returns \<open>nil\<close> (here \<open>None\<close>) or the error with its
  message.\<close>

definition validateFileExists :: "(string \<Rightarrow> path_state) \<Rightarrow> string \<Rightarrow> string option" where
  "validateFileExists fs path =
     (case fs path of
        NotExist \<Rightarrow> Some (''output file does not exist: '' @ path)
      | StatError e \<Rightarrow> Some (''failed to stat output file: '' @ e)
      | DirUnreadable e \<Rightarrow> Some (''failed to read output directory: '' @ e)
      | Dir n \<Rightarrow> (if n = 0 then Some (''output directory is empty: '' @ path) else None)
      | File sz \<Rightarrow> (if sz = 0 then Some (''output file is empty: '' @ path) else None))"

text \<open>\<open>Validate\<close>: step 1 is the existence check, which on failure adds one error and
  returns. The later steps run external tools (ffprobe, the playlist parser, the decode
  test) on the result; they are the parameter \<open>later_steps\<close>.\<close>

definition Validate ::
  "(string \<Rightarrow> path_state) \<Rightarrow> (ValidationResult \<Rightarrow> ValidationResult) \<Rightarrow> string \<Rightarrow> ValidationResult" where
  "Validate fs later_steps outputPath =
     (let result = initial_result in
      case validateFileExists fs outputPath of
        Some err \<Rightarrow> addError ''FILE_NOT_FOUND'' err '''' result
      | None \<Rightarrow> later_steps result)"


section \<open>internal/worker/uploader: the master file of a directory upload\<close>

datatype upload_error = MasterNotFound

text \<open>The loop of \<open>findMasterFile\<close> over the remaining files, with the local variable
  \<open>masterFile\<close>; the three \<open>if\<close> statements of the body in the source's order.\<close>

fun findMasterFile_loop :: "string list \<Rightarrow> string \<Rightarrow> upload_error + string" where
  "findMasterFile_loop [] masterFile =
     (if masterFile = '''' then Inl MasterNotFound else Inr masterFile)"
| "findMasterFile_loop (file # files) masterFile =
     (if HasSuffix file ''master.m3u8'' then Inr file
      else
        let m1 = (if HasSuffix file ''playlist.m3u8'' \<and> masterFile = '''' then file else masterFile);
            m2 = (if HasSuffix file ''manifest.mpd'' \<and> m1 = '''' then file else m1)
        in findMasterFile_loop files m2)"

definition findMasterFile :: "string list \<Rightarrow> upload_error + string" where
  "findMasterFile files = findMasterFile_loop files ''''"


section \<open>internal/controlplane/auth: the API key middleware\<close>

record request =
  Path :: string
  Header :: "string \<rightharpoonup> string"

text \<open>\<open>c.GetHeader(key)\<close> is the empty string when the header is absent.\<close>

definition GetHeader :: "request \<Rightarrow> string \<Rightarrow> string" where
  "GetHeader c key = (case Header c key of None \<Rightarrow> '''' | Some v \<Rightarrow> v)"

text \<open>What the handler does with the request: \<open>c.Next()\<close>, or \<open>c.JSON(status, error)\<close>
  followed by \<open>c.Abort()\<close>.\<close>

datatype middleware_outcome = Next | Abort nat string

definition StatusUnauthorized :: nat where
  "StatusUnauthorized = 401"

text \<open>\<open>APIKeyMiddleware\<close>, with the value of the environment variable \<open>API_KEY\<close> as
  its first argument.\<close>

definition APIKeyMiddleware :: "string \<Rightarrow> request \<Rightarrow> middleware_outcome" where
  "APIKeyMiddleware apiKey c =
     (if apiKey = '''' then Next
      else if Path c = ''/health'' \<or> Path c = ''/metrics'' then Next
      else
        let authHeader = GetHeader c ''Authorization'' in
        if authHeader = '''' then Abort StatusUnauthorized ''missing authorization header''
        else
          let parts = SplitN_space_2 authHeader in
          if length parts \<noteq> 2 \<or> parts ! 0 \<noteq> ''Bearer''
          then Abort StatusUnauthorized ''invalid authorization header format''
          else
            let token = parts ! 1 in
            if token \<noteq> apiKey then Abort StatusUnauthorized ''invalid api key''
            else Next)"


section \<open>internal/controlplane/balancer: worker selection\<close>

text \<open>Go's \<open>%\<close> on integers truncates toward zero: the remainder has the sign of the
  dividend. The caller tests the divisor, which panics at zero.\<close>

definition go_rem :: "int \<Rightarrow> int \<Rightarrow> int" where
  "go_rem a b = sgn a * (\<bar>a\<bar> mod \<bar>b\<bar>)"

text \<open>The fields of \<open>workerv1.WorkerStatus\<close> that \<open>SelectWorker\<close> reads (both
  \<open>int32\<close>, compared and never computed with).\<close>

record WorkerStatus =
  CurrentJobs :: int
  MaxConcurrentJobs :: int

record Balancer =
  workers :: "string list"
  lastWorkerIndex :: int
  timeout :: int

definition New :: "string list \<Rightarrow> int \<Rightarrow> Balancer" where
  "New ws t = \<lparr>workers = ws, lastWorkerIndex = - 1, timeout = t\<rparr>"

text \<open>An open \<open>*grpc.ClientConn\<close>, named by the address it was opened to.\<close>

datatype conn = Conn string

text \<open>What \<open>getWorkerStatus\<close> returns: an error (connecting failed, or the status call
  failed or timed out, and the connection was closed), or the open connection and the
  status. The outcome is the network's; the environment gives it for the \<open>i\<close>-th probe
  of a selection and the address probed.\<close>

datatype probe_result = ProbeFailed string | ProbeOk conn WorkerStatus

type_synonym probes = "nat \<Rightarrow> string \<Rightarrow> probe_result"

definition getWorkerStatus :: "probes \<Rightarrow> nat \<Rightarrow> string \<Rightarrow> probe_result" where
  "getWorkerStatus env i workerAddr = env i workerAddr"

datatype select_error = NoAvailableWorkers nat

text \<open>The loop \<open>for i := 0; i < len(b.workers); i++\<close> of \<open>SelectWorker\<close>. Reading
  \<open>b.workers[idx]\<close> outside the slice panics.\<close>

function SelectWorker_loop ::
  "probes \<Rightarrow> Balancer \<Rightarrow> int \<Rightarrow> nat \<Rightarrow> Balancer \<times> (select_error, string \<times> conn) go_result" where
  "SelectWorker_loop env b startIdx i =
     (if i < length (workers b) then
        let idx = go_rem (startIdx + int i) (int (length (workers b))) in
        if idx < 0 \<or> int (length (workers b)) \<le> idx then (b, Panic ''index out of range'')
        else
          let worker = workers b ! nat idx in
          case getWorkerStatus env i worker of
            ProbeFailed err \<Rightarrow> SelectWorker_loop env b startIdx (i + 1)
          | ProbeOk c status \<Rightarrow>
              if CurrentJobs status < MaxConcurrentJobs status
              then (b\<lparr>lastWorkerIndex := idx\<rparr>, Ok (worker, c))
              else SelectWorker_loop env b startIdx (i + 1)
      else (b, Err (NoAvailableWorkers (length (workers b)))))"
  by pat_completeness auto
termination
  by (relation "measure (\<lambda>(env, b, startIdx, i). length (workers b) - i)") auto

declare SelectWorker_loop.simps [simp del]

text \<open>\<open>SelectWorker\<close>: the start index is
  \<open>(b.lastWorkerIndex + 1) % len(b.workers)\<close>, an integer division that panics when
  the list of workers is empty.\<close>

definition SelectWorker ::
  "probes \<Rightarrow> Balancer \<Rightarrow> Balancer \<times> (select_error, string \<times> conn) go_result" where
  "SelectWorker env b =
     (if length (workers b) = 0 then (b, Panic ''integer divide by zero'')
      else SelectWorker_loop env b (go_rem (lastWorkerIndex b + 1) (int (length (workers b)))) 0)"

text \<open>A probe that lets the selection commit: it succeeded and reports spare capacity.\<close>

definition accepts :: "probes \<Rightarrow> nat \<Rightarrow> string \<Rightarrow> bool" where
  "accepts env i w =
     (case getWorkerStatus env i w of
        ProbeFailed err \<Rightarrow> False
      | ProbeOk c status \<Rightarrow> CurrentJobs status < MaxConcurrentJobs status)"

definition probe_conn :: "probes \<Rightarrow> nat \<Rightarrow> string \<Rightarrow> conn option" where
  "probe_conn env i w =
     (case getWorkerStatus env i w of ProbeFailed err \<Rightarrow> None | ProbeOk c status \<Rightarrow> Some c)"

text \<open>The states a Balancer built by \<open>New\<close> with at least one worker can be in.\<close>

definition balancer_inv :: "Balancer \<Rightarrow> bool" where
  "balancer_inv b \<longleftrightarrow>
     workers b \<noteq> [] \<and> - 1 \<le> lastWorkerIndex b \<and> lastWorkerIndex b < int (length (workers b))"


subsection \<open>internal/controlplane/api: job submission\<close>

text \<open>What \<open>CreateJob\<close> writes with \<open>c.JSON\<close>: the status code and, for an error, the
  text of the \<open>error\<close> field (for the accepted job, the \<open>status\<close> field).\<close>

datatype http_response = JSON nat string

text \<open>\<open>CreateJob\<close>: a body that does not bind is answered 400 with the binding error;
  an error of \<open>SelectWorker\<close> is answered 503; otherwise the job is handed to the worker
  asynchronously and the answer is 202. A panic of \<open>SelectWorker\<close> is not handled in
  \<open>CreateJob\<close> and leaves it as a panic.\<close>

definition CreateJob ::
  "probes \<Rightarrow> Balancer \<Rightarrow> string option \<Rightarrow> Balancer \<times> (unit, http_response) go_result" where
  "CreateJob env b bindErr =
     (case bindErr of
        Some err \<Rightarrow> (b, Ok (JSON 400 err))
      | None \<Rightarrow>
          (case SelectWorker env b of
             (b', Panic p) \<Rightarrow> (b', Panic p)
           | (b', Err e) \<Rightarrow> (b', Ok (JSON 503 ''no available workers''))
           | (b', Ok (w, c)) \<Rightarrow> (b', Ok (JSON 202 ''accepted''))))"


subsection \<open>cmd/controlplane: the worker list of the configuration\<close>

text \<open>\<open>strings.Split(s, ",")\<close>: the fields between the commas; one field, the whole
  string, when there is no comma.\<close>

fun Split_comma :: "string \<Rightarrow> string list" where
  "Split_comma [] = [[]]"
| "Split_comma (c # cs) =
     (if c = CHR '','' then [] # Split_comma cs
      else (case Split_comma cs of
              [] \<Rightarrow> [[c]]
            | p # ps \<Rightarrow> (c # p) # ps))"

text \<open>\<open>strings.TrimSpace\<close>, for the ASCII white space characters.\<close>

definition isSpace :: "char \<Rightarrow> bool" where
  "isSpace c \<longleftrightarrow> c \<in> {CHR '' '', CHR 0x09, CHR 0x0A, CHR 0x0B, CHR 0x0C, CHR 0x0D}"

definition TrimSpace :: "string \<Rightarrow> string" where
  "TrimSpace s = rev (dropWhile isSpace (rev (dropWhile isSpace s)))"

text \<open>The worker list \<open>main\<close> passes to \<open>balancer.New\<close>, from the environment variable
  \<open>WORKER_NODES\<close>; \<open>None\<close> is \<open>logger.Fatal\<close>: the process ends before a Balancer
  exists.\<close>

definition main_workerNodes :: "string \<Rightarrow> string list option" where
  "main_workerNodes workerNodesStr =
     (if workerNodesStr = '''' then None
      else Some (map TrimSpace (Split_comma workerNodesStr)))"


section \<open>internal/shared/retry: retries with exponential backoff\<close>

text \<open>A \<open>time.Duration\<close> is a number of nanoseconds.\<close>

definition Second :: int where
  "Second = 1000000000"

record Config =
  MaxAttempts :: int
  InitialWait :: int
  MaxWait :: int
  Multiplier :: rat

definition DefaultConfig :: Config where
  "DefaultConfig = \<lparr>MaxAttempts = 3, InitialWait = 1 * Second, MaxWait = 30 * Second,
                     Multiplier = 2\<rparr>"

text \<open>The conversion of a float to an integer duration truncates toward zero. The
  product \<open>float64(wait) * config.Multiplier\<close> is taken exactly; for the default
  configuration (whole nanoseconds below \<open>2^53\<close>, factor 2) the float product is exact.\<close>

definition go_trunc :: "rat \<Rightarrow> int" where
  "go_trunc x = (if 0 \<le> x then \<lfloor>x\<rfloor> else \<lceil>x\<rceil>)"

text \<open>The next wait, as the last two statements of the loop body compute it:
  \<open>wait = time.Duration(float64(wait) * config.Multiplier)\<close>, then the cap at
  \<open>config.MaxWait\<close>.\<close>

definition next_wait :: "Config \<Rightarrow> int \<Rightarrow> int" where
  "next_wait config wait =
     (let w = go_trunc (of_int wait * Multiplier config)
      in if w > MaxWait config then MaxWait config else w)"

text \<open>What \<open>Do\<close> does, in order: it invokes the operation (the attempt number), it
  waits a duration out (\<open>time.After\<close> fires), or the context is done during a wait.\<close>

datatype retry_event = Invoke nat | Waited int | Interrupted int

datatype retry_result = Success | RetryCancelled | MaxAttemptsReached int "string option"

text \<open>The loop of \<open>Do\<close>. The operation \<open>fn\<close> has effects, so its result depends on the
  invocation: \<open>fn k\<close> is the error of the \<open>k\<close>-th invocation, \<open>None\<close> for \<open>nil\<close>.
  \<open>ctx k\<close> tells whether the \<open>select\<close> after the \<open>k\<close>-th attempt receives from
  \<open>ctx.Done()\<close> rather than from the timer.\<close>

function Do_loop ::
  "Config \<Rightarrow> (nat \<Rightarrow> string option) \<Rightarrow> (nat \<Rightarrow> bool) \<Rightarrow> nat \<Rightarrow> int \<Rightarrow> string option
   \<Rightarrow> retry_event list \<Rightarrow> retry_event list \<times> retry_result" where
  "Do_loop config fn ctx attempt wait lastErr trace =
     (if int attempt \<le> MaxAttempts config then
        (case fn attempt of
           None \<Rightarrow> (trace @ [Invoke attempt], Success)
         | Some err \<Rightarrow>
             if int attempt = MaxAttempts config
             then (trace @ [Invoke attempt], MaxAttemptsReached (MaxAttempts config) (Some err))
             else if ctx attempt
             then (trace @ [Invoke attempt, Interrupted wait], RetryCancelled)
             else Do_loop config fn ctx (attempt + 1) (next_wait config wait) (Some err)
                    (trace @ [Invoke attempt, Waited wait]))
      else (trace, MaxAttemptsReached (MaxAttempts config) lastErr))"
  by pat_completeness auto
termination
  by (relation "measure (\<lambda>(config, fn, ctx, attempt, wait, lastErr, trace).
                  nat (MaxAttempts config + 1 - int attempt))") auto

declare Do_loop.simps [simp del]

definition Do :: "Config \<Rightarrow> (nat \<Rightarrow> string option) \<Rightarrow> (nat \<Rightarrow> bool) \<Rightarrow> retry_event list \<times> retry_result" where
  "Do config fn ctx = Do_loop config fn ctx 1 (InitialWait config) None []"

text \<open>The number of times the operation was invoked, and the durations of the waits
  that were started, in order.\<close>

definition invocations :: "retry_event list \<Rightarrow> nat" where
  "invocations trace = length (filter (\<lambda>e. case e of Invoke k \<Rightarrow> True | _ \<Rightarrow> False) trace)"

fun waits :: "retry_event list \<Rightarrow> int list" where
  "waits [] = []"
| "waits (Invoke k # es) = waits es"
| "waits (Waited w # es) = w # waits es"
| "waits (Interrupted w # es) = w # waits es"


section \<open>internal/worker/encoder: progress from the encoder's output\<close>

text \<open>
  Numbers: the Go code computes the percentage in \<open>float64\<close> and keeps it as
  \<open>float32\<close>. The model computes in exact rational arithmetic: rounding is left out,
  the comparisons (\<open>duration <= 0\<close>, the clamp \<open>progress > 100\<close>, the logging test) are
  the source's.
\<close>

subsection \<open>The two regular expressions\<close>

text \<open>\<open>\d\<close> is an ASCII digit, \<open>\s\<close> is one of tab, newline, form feed, carriage
  return and space.\<close>

definition is_digit :: "char \<Rightarrow> bool" where
  "is_digit c \<longleftrightarrow> c \<in> set ''0123456789''"

definition is_re_space :: "char \<Rightarrow> bool" where
  "is_re_space c \<longleftrightarrow> c \<in> {CHR 0x09, CHR 0x0A, CHR 0x0C, CHR 0x0D, CHR '' ''}"

text \<open>\<open>timeRe.FindStringSubmatch(line)\<close> for \<open>out_time_ms=(\d+)\<close>: the leftmost place
  where the literal is followed by a digit; the submatch is the longest run of digits
  there. \<open>None\<close> when there is no match.\<close>

fun find_out_time_ms :: "string \<Rightarrow> string option" where
  "find_out_time_ms [] = None"
| "find_out_time_ms (c # cs) =
     (if prefix ''out_time_ms='' (c # cs)
         \<and> takeWhile is_digit (drop (length ''out_time_ms='') (c # cs)) \<noteq> []
      then Some (takeWhile is_digit (drop (length ''out_time_ms='') (c # cs)))
      else find_out_time_ms cs)"

text \<open>\<open>frameRe.FindStringSubmatch(line)\<close> for \<open>frame=\s*(\d+)\<close>.\<close>

fun find_frame :: "string \<Rightarrow> string option" where
  "find_frame [] = None"
| "find_frame (c # cs) =
     (if prefix ''frame='' (c # cs)
         \<and> takeWhile is_digit (dropWhile is_re_space (drop (length ''frame='') (c # cs))) \<noteq> []
      then Some (takeWhile is_digit (dropWhile is_re_space (drop (length ''frame='') (c # cs))))
      else find_frame cs)"

subsection \<open>Parsing one line\<close>

text \<open>\<open>strconv.ParseFloat(s, 64)\<close> belongs to the Go library: it is a parameter of the
  model, \<open>None\<close> for an error. On a string of at most 15 decimal digits it returns the
  number the digits write, exactly; \<open>ParseFloat_digits\<close> is that function.\<close>

type_synonym parse_float = "string \<Rightarrow> rat option"

definition digits_value :: "string \<Rightarrow> nat" where
  "digits_value s = foldl (\<lambda>n c. 10 * n + (of_char c - 48)) 0 s"

definition ParseFloat_digits :: parse_float where
  "ParseFloat_digits s = Some (of_nat (digits_value s))"

text \<open>\<open>parseProgress\<close> returns the percentage and whether the line carried one.\<close>

definition parseProgress :: "parse_float \<Rightarrow> string \<Rightarrow> rat \<Rightarrow> rat \<times> bool" where
  "parseProgress ParseFloat line duration =
     (if duration \<le> 0 then (0, False)
      else
        case find_out_time_ms line of
          None \<Rightarrow> (0, False)
        | Some m \<Rightarrow>
            (case ParseFloat m of
               None \<Rightarrow> (0, False)
             | Some timeMicros \<Rightarrow>
                 let progress = (timeMicros / 1000000) / duration * 100;
                     progress = (if progress > 100 then 100 else progress)
                 in (progress, True)))"

subsection \<open>Reading the output\<close>

text \<open>The message of a progress notification: a fixed text, or the text
  \<open>fmt.Sprintf("Encoding: %.1f%%", progress)\<close>, kept as the number it prints.\<close>

datatype message = Text string | PercentText rat

text \<open>What \<open>readFFmpegProgress\<close> does for the outside, in order: a call of the
  progress callback with its two arguments, or the entry \<open>Encoding progress\<close> written
  to the log with \<open>logger.Info\<close>.\<close>

datatype encoder_event = Callback rat message | LogProgress rat

text \<open>The loop \<open>for scanner.Scan()\<close> over the lines the scanner yields, with the local
  variable \<open>lastLoggedProgress\<close>.\<close>

fun readFFmpegProgress_loop :: "parse_float \<Rightarrow> rat \<Rightarrow> string list \<Rightarrow> rat \<Rightarrow> encoder_event list" where
  "readFFmpegProgress_loop ParseFloat duration [] lastLoggedProgress = []"
| "readFFmpegProgress_loop ParseFloat duration (line # lines) lastLoggedProgress =
     (let frame = (case find_frame line of
                     None \<Rightarrow> []
                   | Some f \<Rightarrow> [Callback 0 (Text (''Encoding frame '' @ f))])
      in case parseProgress ParseFloat line duration of
           (progress, False) \<Rightarrow>
             frame @ readFFmpegProgress_loop ParseFloat duration lines lastLoggedProgress
         | (progress, True) \<Rightarrow>
             if progress - lastLoggedProgress \<ge> 10 \<or> progress \<ge> 100
             then frame @ [LogProgress progress, Callback progress (PercentText progress)]
                  @ readFFmpegProgress_loop ParseFloat duration lines progress
             else frame @ [Callback progress (PercentText progress)]
                  @ readFFmpegProgress_loop ParseFloat duration lines lastLoggedProgress)"

definition readFFmpegProgress :: "parse_float \<Rightarrow> string list \<Rightarrow> rat \<Rightarrow> encoder_event list" where
  "readFFmpegProgress ParseFloat stderr duration =
     readFFmpegProgress_loop ParseFloat duration stderr (- 10)"



fun callbacks :: "encoder_event list \<Rightarrow> (rat \<times> message) list" where
  "callbacks [] = []"
| "callbacks (Callback p m # es) = (p, m) # callbacks es"
| "callbacks (e # es) = callbacks es"



subsection \<open>Encode\<close>

text \<open>What the world does during one \<open>Encode\<close>: the errors of the steps before the
  encoder runs (\<open>None\<close>: the step succeeds), the result of \<open>getDuration\<close>, the lines
  the scanner yields from the encoder's stderr, the error of \<open>cmd.Wait\<close>, the error of
  \<open>validateOutput\<close>, and the output path \<open>resolveOutputPaths\<close> gives.\<close>

record encode_env =
  preset_err :: "string option"
  mkdir_err :: "string option"
  paths_err :: "string option"
  pipe_err :: "string option"
  start_err :: "string option"
  duration_probe :: "string + rat"
  stderr_lines :: "string list"
  wait_err :: "string option"
  validate_err :: "string option"
  output_path :: string

text \<open>\<open>Encode\<close>: the calls of the callback, in order, and the error or the output
  path. A failed duration probe is logged and the duration is 0; an error of the scanner
  is logged and changes nothing else.\<close>

definition Encode :: "parse_float \<Rightarrow> encode_env \<Rightarrow> (rat \<times> message) list \<times> (string + string)" where
  "Encode ParseFloat env =
     (case preset_err env of
        Some e \<Rightarrow> ([], Inl (''failed to get preset: '' @ e))
      | None \<Rightarrow>
     (case mkdir_err env of
        Some e \<Rightarrow> ([], Inl (''failed to create job directory: '' @ e))
      | None \<Rightarrow>
     (case paths_err env of
        Some e \<Rightarrow> ([], Inl e)
      | None \<Rightarrow>
     (case pipe_err env of
        Some e \<Rightarrow> ([], Inl (''failed to create stderr pipe: '' @ e))
      | None \<Rightarrow>
     (case start_err env of
        Some e \<Rightarrow> ([], Inl (''failed to start ffmpeg: '' @ e))
      | None \<Rightarrow>
          let duration = (case duration_probe env of Inl e \<Rightarrow> 0 | Inr d \<Rightarrow> d);
              calls = callbacks (readFFmpegProgress ParseFloat (stderr_lines env) duration)
          in (case wait_err env of
                Some e \<Rightarrow> (calls, Inl (''ffmpeg failed: '' @ e))
              | None \<Rightarrow>
                  (case validate_err env of
                     Some e \<Rightarrow> (calls, Inl (''output validation failed: '' @ e))
                   | None \<Rightarrow> (calls, Inr (output_path env)))))))))"

text \<open>\<open>os.MkdirAll(jobDir)\<close> has run and succeeded.\<close>

definition creates_job_dir :: "encode_env \<Rightarrow> bool" where
  "creates_job_dir env \<longleftrightarrow> preset_err env = None \<and> mkdir_err env = None"


section \<open>internal/worker/grpc: the job server\<close>

datatype JobStatus = QUEUED | PROCESSING | UPLOADING | COMPLETED | FAILED

text \<open>\<open>workerv1.JobProgress\<close>, without its time stamp.\<close>

record JobProgress =
  JobId :: string
  Status :: JobStatus
  Progress :: rat
  Message :: message
  OutputUrl :: string
  Error :: string

record JobRequest =
  req_JobId :: string
  req_InputUrl :: string
  req_Preset :: string
  req_OutputPath :: string

text \<open>The server: the counter \<open>activeJobs\<close>, the limit, the keys of the table
  \<open>activeJobIDs\<close> (its values, the cancel functions, are not modelled), and the job
  directories that exist under the encoder's work directory.\<close>

record Server =
  activeJobs :: int
  maxConcurrent :: int
  activeJobIDs :: "string set"
  jobDirs :: "string set"

text \<open>\<open>Cleanup\<close>: \<open>os.RemoveAll(jobDir)\<close>; when it fails the error is logged and the
  directory is taken to be still there.\<close>

definition Cleanup :: "bool \<Rightarrow> string \<Rightarrow> Server \<Rightarrow> Server" where
  "Cleanup ok jobID s = (if ok then s\<lparr>jobDirs := jobDirs s - {jobID}\<rparr> else s)"

text \<open>The deferred function of \<open>SubmitJob\<close>, which runs on every return after the
  admission: the server's state after each of its three statements, in the source's
  order.\<close>

definition retirement :: "bool \<Rightarrow> string \<Rightarrow> Server \<Rightarrow> Server list" where
  "retirement cleanup_ok jobID s =
     (let s1 = s\<lparr>activeJobs := activeJobs s - 1\<rparr>;
          s2 = s1\<lparr>activeJobIDs := activeJobIDs s1 - {jobID}\<rparr>;
          s3 = Cleanup cleanup_ok jobID s2
      in [s1, s2, s3])"

text \<open>The last statement of the deferred function reads the counter again and starts
  \<open>gracefulShutdown\<close> when it is zero and the shutdown is not disabled.\<close>

definition starts_shutdown :: "bool \<Rightarrow> Server \<Rightarrow> bool" where
  "starts_shutdown disableAutoShutdown s \<longleftrightarrow> activeJobs s = 0 \<and> \<not> disableAutoShutdown"

text \<open>What the world does during one \<open>SubmitJob\<close>: the encode, whether the \<open>n\<close>-th
  \<open>stream.Send\<close> of the call (from 0) returns an error, the error of \<open>os.Stat\<close> on the
  output path, the error or the URL of the upload, whether \<open>Cleanup\<close> succeeds.\<close>

record submit_env =
  encode :: encode_env
  send_fails :: "nat \<Rightarrow> bool"
  stat_err :: "string option"
  upload :: "string + string"
  cleanup_ok :: bool

datatype submit_error = ResourceExhausted int int | SendFailed

definition progress_msg :: "JobRequest \<Rightarrow> JobStatus \<Rightarrow> rat \<Rightarrow> message \<Rightarrow> JobProgress" where
  "progress_msg req st p m =
     \<lparr>JobId = req_JobId req, Status = st, Progress = p, Message = m, OutputUrl = '''', Error = ''''\<rparr>"

text \<open>A \<open>return stream.Send(msg)\<close> as the \<open>n\<close>-th send.\<close>

definition return_send :: "submit_env \<Rightarrow> nat \<Rightarrow> submit_error option" where
  "return_send env n = (if send_fails env n then Some SendFailed else None)"

text \<open>The body of \<open>SubmitJob\<close> after the admission: the messages passed to
  \<open>stream.Send\<close>, in order, the error returned, and whether \<open>Encode\<close> was reached.
  The callback passes every progress notification to \<open>stream.Send\<close> as a PROCESSING
  message; when that send fails it cancels the job's context, and the lines still read
  from the encoder after that are the environment's.\<close>

definition SubmitJob_body ::
  "parse_float \<Rightarrow> submit_env \<Rightarrow> JobRequest \<Rightarrow> JobProgress list \<times> submit_error option \<times> bool" where
  "SubmitJob_body ParseFloat env req =
     (let queued = progress_msg req QUEUED 0 (Text ''Job queued'') in
      if send_fails env 0 then ([queued], Some SendFailed, False)
      else
        let starting = progress_msg req PROCESSING 0 (Text ''Starting encoding'') in
        if send_fails env 1 then ([queued, starting], Some SendFailed, False)
        else
          let (calls, result) = Encode ParseFloat (encode env);
              sent = [queued, starting] @ map (\<lambda>(p, m). progress_msg req PROCESSING p m) calls;
              n = length sent
          in case result of
               Inl err \<Rightarrow>
                 (sent @ [(progress_msg req FAILED 0 (Text ''Encoding failed''))\<lparr>Error := err\<rparr>],
                  return_send env n, True)
             | Inr outputPath \<Rightarrow>
                 let uploading = progress_msg req UPLOADING 100 (Text ''Uploading output'') in
                 if send_fails env n then (sent @ [uploading], Some SendFailed, True)
                 else
                   (case stat_err env of
                      Some err \<Rightarrow>
                        (sent @ [uploading,
                           (progress_msg req FAILED 100 (Text ''Failed to stat output path''))\<lparr>Error := err\<rparr>],
                         return_send env (n + 1), True)
                    | None \<Rightarrow>
                        (case upload env of
                           Inl err \<Rightarrow>
                             (sent @ [uploading,
                                (progress_msg req FAILED 100 (Text ''Upload failed''))\<lparr>Error := err\<rparr>],
                              return_send env (n + 1), True)
                         | Inr outputURL \<Rightarrow>
                             (sent @ [uploading,
                                (progress_msg req COMPLETED 100 (Text ''Job completed''))\<lparr>OutputUrl := outputURL\<rparr>],
                              return_send env (n + 1), True))))"

text \<open>\<open>SubmitJob\<close>: the admission check; then the counter is incremented and the job
  registered, the body runs, and the deferred function retires the job. The result is
  the sequence of the server's states, the messages passed to \<open>stream.Send\<close>, and the
  error returned.\<close>

definition SubmitJob ::
  "parse_float \<Rightarrow> submit_env \<Rightarrow> Server \<Rightarrow> JobRequest
   \<Rightarrow> Server list \<times> JobProgress list \<times> submit_error option" where
  "SubmitJob ParseFloat env s req =
     (if activeJobs s \<ge> maxConcurrent s
      then ([], [], Some (ResourceExhausted (activeJobs s) (maxConcurrent s)))
      else
        let s1 = s\<lparr>activeJobs := activeJobs s + 1\<rparr>;
            s2 = s1\<lparr>activeJobIDs := insert (req_JobId req) (activeJobIDs s1)\<rparr>;
            (sent, err, encoded) = SubmitJob_body ParseFloat env req;
            s3 = (if encoded \<and> creates_job_dir (encode env)
                  then s2\<lparr>jobDirs := insert (req_JobId req) (jobDirs s2)\<rparr> else s2)
        in ([s1, s2, s3] @ retirement (cleanup_ok env) (req_JobId req) s3, sent, err))"


section \<open>Properties of the validation result\<close>

lemma addError_fields:
  "Valid (addError c m f r) = False"
  "Errors (addError c m f r) \<noteq> []"
  by (simp_all add: addError_def)

lemma addWarning_fields:
  "Valid (addWarning c m f r) = Valid r"
  "Errors (addWarning c m f r) = Errors r"
  by (simp_all add: addWarning_def)

lemma apply_mutation_keeps_invariant:
  assumes "Valid r \<longleftrightarrow> Errors r = []"
  shows "Valid (apply_mutation m r) \<longleftrightarrow> Errors (apply_mutation m r) = []"
  using assms by (cases m) (simp_all add: addError_fields addWarning_fields)

lemma apply_mutations_keeps_invariant:
  "(Valid r \<longleftrightarrow> Errors r = []) \<Longrightarrow>
   (Valid (apply_mutations ms r) \<longleftrightarrow> Errors (apply_mutations ms r) = [])"
  unfolding apply_mutations_def
proof (induction ms arbitrary: r)
  case Nil
  then show ?case by simp
next
  case (Cons m ms)
  have "Valid (apply_mutation m r) \<longleftrightarrow> Errors (apply_mutation m r) = []"
    using Cons.prems by (rule apply_mutation_keeps_invariant)
  then show ?case using Cons.IH by simp
qed

text \<open>
  Claim C7. Starting from the initial result (valid, no errors, no warnings), after any
  sequence of \<open>addError\<close> and \<open>addWarning\<close> calls the flag \<open>Valid\<close> is true exactly
  when the list of errors is empty; and \<open>addWarning\<close> leaves the flag of any result
  as it was.
\<close>

theorem valid_iff_no_errors:
  "(Valid (apply_mutations ms initial_result) \<longleftrightarrow> Errors (apply_mutations ms initial_result) = [])
   \<and> Valid (addWarning c m f r) = Valid r"
proof
  have "Valid initial_result \<longleftrightarrow> Errors initial_result = []"
    by (simp add: initial_result_def)
  then show "Valid (apply_mutations ms initial_result) \<longleftrightarrow>
             Errors (apply_mutations ms initial_result) = []"
    by (rule apply_mutations_keeps_invariant)
next
  show "Valid (addWarning c m f r) = Valid r"
    by (simp add: addWarning_fields)
qed

theorem valid_iff_no_errors_witness:
  "\<not> Valid (apply_mutations [AddWarning ''W'' ''w'' '''', AddError ''E'' ''e'' '''',
                             AddWarning ''V'' ''v'' ''''] initial_result)
   \<and> Valid (apply_mutations [AddWarning ''W'' ''w'' ''''] initial_result)
   \<and> Valid (addWarning ''W'' ''w'' '''' initial_result) = Valid initial_result"
  using valid_iff_no_errors [of "[AddWarning ''W'' ''w'' '''', AddError ''E'' ''e'' '''',
                                  AddWarning ''V'' ''v'' '''']" "''W''" "''w''" "''''" initial_result]
        valid_iff_no_errors [of "[AddWarning ''W'' ''w'' '''']" "''W''" "''w''" "''''" initial_result]
  by (simp add: apply_mutations_def addError_def addWarning_def initial_result_def)


section \<open>Properties of the existence check\<close>

text \<open>
  Claim C5, as the code has it. The existence check reports its failure modes under one
  error code: a missing output path, an existing file of size zero and an existing empty
  directory each make \<open>Validate\<close> return a result that is not valid and whose only
  error has code \<open>FILE_NOT_FOUND\<close>. The code \<open>FILE_EMPTY\<close> is not produced.
\<close>

theorem existence_failure_code:
  assumes "fs p = NotExist \<or> fs p = File 0 \<or> fs p = Dir 0"
  shows "map E_Code (Errors (Validate fs later_steps p)) = [''FILE_NOT_FOUND'']
         \<and> \<not> Valid (Validate fs later_steps p)"
  using assms
  by (auto simp: Validate_def validateFileExists_def addError_def initial_result_def)

theorem existence_failure_code_witness:
  "map E_Code (Errors (Validate (\<lambda>p. File 0) id ''/work/job1/output.mp4'')) = [''FILE_NOT_FOUND'']
   \<and> map E_Message (Errors (Validate (\<lambda>p. File 0) id ''/work/job1/output.mp4''))
       = [''output file is empty: /work/job1/output.mp4'']"
  using existence_failure_code [of "\<lambda>p. File 0" "''/work/job1/output.mp4''" id]
  by (simp add: Validate_def validateFileExists_def addError_def initial_result_def)

text \<open>An existing output file of size zero, and an existing empty output directory: the
  one error of the result does not carry the code \<open>FILE_EMPTY\<close>.\<close>

theorem empty_output_code_counterexample:
  "map E_Code (Errors (Validate (\<lambda>p. File 0) id ''/work/job1/output.mp4'')) \<noteq> [''FILE_EMPTY'']
   \<and> ''FILE_EMPTY'' \<notin> set (map E_Code (Errors (Validate (\<lambda>p. File 0) id ''/work/job1/output.mp4'')))
   \<and> ''FILE_EMPTY'' \<notin> set (map E_Code (Errors (Validate (\<lambda>p. Dir 0) id ''/work/job1/output'')))"
  by (simp add: Validate_def validateFileExists_def addError_def initial_result_def)


section \<open>Properties of the master file resolution\<close>

lemma HasSuffix_nonempty: "HasSuffix f suf \<Longrightarrow> suf \<noteq> [] \<Longrightarrow> f \<noteq> []"
  by (auto simp: HasSuffix_def)

lemma findMasterFile_loop_char:
  "findMasterFile_loop files m =
     (case find (\<lambda>f. HasSuffix f ''master.m3u8'') files of
        Some f \<Rightarrow> Inr f
      | None \<Rightarrow>
          if m \<noteq> '''' then Inr m
          else (case find (\<lambda>f. HasSuffix f ''playlist.m3u8'' \<or> HasSuffix f ''manifest.mpd'') files of
                  Some f \<Rightarrow> Inr f
                | None \<Rightarrow> Inl MasterNotFound))"
proof (induction files arbitrary: m)
  case Nil
  then show ?case by simp
next
  case (Cons x xs)
  have ne: "HasSuffix x ''playlist.m3u8'' \<or> HasSuffix x ''manifest.mpd'' \<Longrightarrow> x \<noteq> ''''"
    using HasSuffix_nonempty by fastforce
  show ?case
    using ne by (auto simp: Cons.IH Let_def split: option.splits)
qed

lemma find_Some_ex: "find P xs = Some x \<Longrightarrow> x \<in> set xs \<and> P x"
  by (induction xs) (auto split: if_splits)

text \<open>
  Claim C4, as the code has it. An entry whose path ends in \<open>master.m3u8\<close> is selected
  wherever it stands in the list (the first such entry). Without one, the first entry in
  list order whose path ends in \<open>playlist.m3u8\<close> or in \<open>manifest.mpd\<close> is selected:
  between these two names the order of the list decides. The error is returned exactly
  when no entry ends in any of the three names.
\<close>

theorem findMasterFile_selection:
  "findMasterFile files =
     (case find (\<lambda>f. HasSuffix f ''master.m3u8'') files of
        Some f \<Rightarrow> Inr f
      | None \<Rightarrow>
          (case find (\<lambda>f. HasSuffix f ''playlist.m3u8'' \<or> HasSuffix f ''manifest.mpd'') files of
             Some f \<Rightarrow> Inr f
           | None \<Rightarrow> Inl MasterNotFound))
   \<and> (findMasterFile files = Inl MasterNotFound \<longleftrightarrow>
        (\<forall>f \<in> set files. \<not> HasSuffix f ''master.m3u8'' \<and> \<not> HasSuffix f ''playlist.m3u8''
                           \<and> \<not> HasSuffix f ''manifest.mpd''))"
proof
  show c: "findMasterFile files =
     (case find (\<lambda>f. HasSuffix f ''master.m3u8'') files of
        Some f \<Rightarrow> Inr f
      | None \<Rightarrow>
          (case find (\<lambda>f. HasSuffix f ''playlist.m3u8'' \<or> HasSuffix f ''manifest.mpd'') files of
             Some f \<Rightarrow> Inr f
           | None \<Rightarrow> Inl MasterNotFound))"
    by (simp add: findMasterFile_def findMasterFile_loop_char)
  show "findMasterFile files = Inl MasterNotFound \<longleftrightarrow>
        (\<forall>f \<in> set files. \<not> HasSuffix f ''master.m3u8'' \<and> \<not> HasSuffix f ''playlist.m3u8''
                           \<and> \<not> HasSuffix f ''manifest.mpd'')"
    unfolding c by (auto simp: find_None_iff split: option.splits dest: find_Some_ex)
qed

theorem findMasterFile_selection_witness:
  "findMasterFile [''seg_0.ts'', ''manifest.mpd'', ''v/master.m3u8'', ''playlist.m3u8'']
     = Inr ''v/master.m3u8''
   \<and> findMasterFile [''seg_0.ts'', ''seg_1.ts''] = Inl MasterNotFound"
  using findMasterFile_selection [of "[''seg_0.ts'', ''manifest.mpd'', ''v/master.m3u8'', ''playlist.m3u8'']"]
        findMasterFile_selection [of "[''seg_0.ts'', ''seg_1.ts'']"]
  by (simp add: HasSuffix_def)

text \<open>With both fallback names present and no \<open>master.m3u8\<close>, the entry that comes
  first in the list is returned: \<open>manifest.mpd\<close> wins over \<open>playlist.m3u8\<close> when it
  is listed first.\<close>

theorem findMasterFile_order_counterexample:
  "findMasterFile [''manifest.mpd'', ''playlist.m3u8''] = Inr ''manifest.mpd''
   \<and> findMasterFile [''playlist.m3u8'', ''manifest.mpd''] = Inr ''playlist.m3u8''"
  by (simp add: findMasterFile_def HasSuffix_def)


section \<open>Properties of the API key middleware\<close>

lemma SplitN_Bearer:
  "(length (SplitN_space_2 h) = 2 \<and> SplitN_space_2 h ! 0 = ''Bearer'' \<and> SplitN_space_2 h ! 1 = tok)
   \<longleftrightarrow> h = ''Bearer '' @ tok"
proof
  assume a: "length (SplitN_space_2 h) = 2 \<and> SplitN_space_2 h ! 0 = ''Bearer'' \<and> SplitN_space_2 h ! 1 = tok"
  then have sp: "CHR '' '' \<in> set h"
    by (auto simp: SplitN_space_2_def split: if_splits)
  then have tw: "takeWhile (\<lambda>c. c \<noteq> CHR '' '') h = ''Bearer''"
    and dw: "tl (dropWhile (\<lambda>c. c \<noteq> CHR '' '') h) = tok"
    using a by (simp_all add: SplitN_space_2_def)
  from sp have "dropWhile (\<lambda>c. c \<noteq> CHR '' '') h \<noteq> []" by simp
  moreover have "hd (dropWhile (\<lambda>c. c \<noteq> CHR '' '') h) = CHR '' ''"
    using sp hd_dropWhile[of "\<lambda>c. c \<noteq> CHR '' ''" h] by auto
  ultimately have "dropWhile (\<lambda>c. c \<noteq> CHR '' '') h = CHR '' '' # tok"
    using dw by (cases "dropWhile (\<lambda>c. c \<noteq> CHR '' '') h") auto
  then have "h = ''Bearer'' @ CHR '' '' # tok"
    using tw takeWhile_dropWhile_id[of "\<lambda>c. c \<noteq> CHR '' ''" h] by simp
  then show "h = ''Bearer '' @ tok" by simp
next
  assume "h = ''Bearer '' @ tok"
  then show "length (SplitN_space_2 h) = 2 \<and> SplitN_space_2 h ! 0 = ''Bearer'' \<and> SplitN_space_2 h ! 1 = tok"
    by (simp add: SplitN_space_2_def)
qed

lemma APIKeyMiddleware_guarded:
  assumes "apiKey \<noteq> ''''" "Path c \<noteq> ''/health''" "Path c \<noteq> ''/metrics''"
  shows "APIKeyMiddleware apiKey c =
     (if GetHeader c ''Authorization'' = '''' then Abort 401 ''missing authorization header''
      else if length (SplitN_space_2 (GetHeader c ''Authorization'')) \<noteq> 2
              \<or> SplitN_space_2 (GetHeader c ''Authorization'') ! 0 \<noteq> ''Bearer''
           then Abort 401 ''invalid authorization header format''
      else if SplitN_space_2 (GetHeader c ''Authorization'') ! 1 \<noteq> apiKey
           then Abort 401 ''invalid api key''
      else Next)"
  using assms by (simp add: APIKeyMiddleware_def StatusUnauthorized_def Let_def)

lemma SplitN_empty: "length (SplitN_space_2 '''') \<noteq> 2"
  by (simp add: SplitN_space_2_def)

lemma guarded_Next_iff:
  assumes "apiKey \<noteq> ''''" "Path c \<noteq> ''/health''" "Path c \<noteq> ''/metrics''"
  shows "APIKeyMiddleware apiKey c = Next \<longleftrightarrow> GetHeader c ''Authorization'' = ''Bearer '' @ apiKey"
proof -
  define h where "h = GetHeader c ''Authorization''"
  define P where "P = SplitN_space_2 h"
  have g: "APIKeyMiddleware apiKey c =
     (if h = '''' then Abort 401 ''missing authorization header''
      else if length P \<noteq> 2 \<or> P ! 0 \<noteq> ''Bearer''
           then Abort 401 ''invalid authorization header format''
      else if P ! 1 \<noteq> apiKey then Abort 401 ''invalid api key''
      else Next)"
    unfolding P_def h_def using assms by (rule APIKeyMiddleware_guarded)
  have b: "h = ''Bearer '' @ apiKey \<longleftrightarrow> length P = 2 \<and> P ! 0 = ''Bearer'' \<and> P ! 1 = apiKey"
    unfolding P_def using SplitN_Bearer [of h apiKey] by blast
  have e: "h = '''' \<Longrightarrow> length P \<noteq> 2"
    unfolding P_def using SplitN_empty by simp
  have "APIKeyMiddleware apiKey c = Next \<longleftrightarrow> h = ''Bearer '' @ apiKey"
    unfolding g b using e by auto
  then show ?thesis by (simp only: h_def)
qed

lemma guarded_401:
  assumes "apiKey \<noteq> ''''" "Path c \<noteq> ''/health''" "Path c \<noteq> ''/metrics''"
    and "APIKeyMiddleware apiKey c \<noteq> Next"
  shows "\<exists>msg. APIKeyMiddleware apiKey c = Abort 401 msg"
proof -
  have "APIKeyMiddleware apiKey c = Next
      \<or> APIKeyMiddleware apiKey c = Abort 401 ''missing authorization header''
      \<or> APIKeyMiddleware apiKey c = Abort 401 ''invalid authorization header format''
      \<or> APIKeyMiddleware apiKey c = Abort 401 ''invalid api key''"
    unfolding APIKeyMiddleware_guarded [OF assms(1-3)] by presburger
  then show ?thesis using assms(4) by blast
qed

text \<open>
  Claim C10. Without a configured key every request passes. With a key, the paths
  \<open>/health\<close> and \<open>/metrics\<close> pass whatever the headers. With a key and any other path,
  the request passes exactly when its Authorization header is \<open>Bearer\<close>, one space, and
  the configured key; a missing (empty) header, a header that does not split at its
  first space into \<open>Bearer\<close> and a token, and a token other than the key are each
  answered with status 401 and the request is aborted.
\<close>

theorem APIKeyMiddleware_authorization:
  "APIKeyMiddleware '''' c = Next
   \<and> (apiKey \<noteq> '''' \<and> (Path c = ''/health'' \<or> Path c = ''/metrics'')
        \<longrightarrow> APIKeyMiddleware apiKey c = Next)
   \<and> (apiKey \<noteq> '''' \<and> Path c \<noteq> ''/health'' \<and> Path c \<noteq> ''/metrics'' \<longrightarrow>
        (APIKeyMiddleware apiKey c = Next \<longleftrightarrow> GetHeader c ''Authorization'' = ''Bearer '' @ apiKey)
        \<and> (GetHeader c ''Authorization'' = ''''
             \<longrightarrow> APIKeyMiddleware apiKey c = Abort 401 ''missing authorization header'')
        \<and> (GetHeader c ''Authorization'' \<noteq> ''''
             \<and> (length (SplitN_space_2 (GetHeader c ''Authorization'')) \<noteq> 2
                 \<or> SplitN_space_2 (GetHeader c ''Authorization'') ! 0 \<noteq> ''Bearer'')
             \<longrightarrow> APIKeyMiddleware apiKey c = Abort 401 ''invalid authorization header format'')
        \<and> (GetHeader c ''Authorization'' \<noteq> ''''
             \<and> length (SplitN_space_2 (GetHeader c ''Authorization'')) = 2
             \<and> SplitN_space_2 (GetHeader c ''Authorization'') ! 0 = ''Bearer''
             \<and> SplitN_space_2 (GetHeader c ''Authorization'') ! 1 \<noteq> apiKey
             \<longrightarrow> APIKeyMiddleware apiKey c = Abort 401 ''invalid api key'')
        \<and> (APIKeyMiddleware apiKey c \<noteq> Next
             \<longrightarrow> (\<exists>msg. APIKeyMiddleware apiKey c = Abort 401 msg)))"
proof (intro conjI impI)
  show "APIKeyMiddleware '''' c = Next"
    by (simp add: APIKeyMiddleware_def)
next
  assume "apiKey \<noteq> '''' \<and> (Path c = ''/health'' \<or> Path c = ''/metrics'')"
  then show "APIKeyMiddleware apiKey c = Next"
    by (auto simp: APIKeyMiddleware_def)
next
  assume "apiKey \<noteq> '''' \<and> Path c \<noteq> ''/health'' \<and> Path c \<noteq> ''/metrics''"
  then show "APIKeyMiddleware apiKey c = Next \<longleftrightarrow> GetHeader c ''Authorization'' = ''Bearer '' @ apiKey"
    using guarded_Next_iff by blast
next
  assume "apiKey \<noteq> '''' \<and> Path c \<noteq> ''/health'' \<and> Path c \<noteq> ''/metrics''"
     and "GetHeader c ''Authorization'' = ''''"
  then show "APIKeyMiddleware apiKey c = Abort 401 ''missing authorization header''"
    by (simp add: APIKeyMiddleware_guarded)
next
  assume "apiKey \<noteq> '''' \<and> Path c \<noteq> ''/health'' \<and> Path c \<noteq> ''/metrics''"
     and "GetHeader c ''Authorization'' \<noteq> ''''
        \<and> (length (SplitN_space_2 (GetHeader c ''Authorization'')) \<noteq> 2
            \<or> SplitN_space_2 (GetHeader c ''Authorization'') ! 0 \<noteq> ''Bearer'')"
  then show "APIKeyMiddleware apiKey c = Abort 401 ''invalid authorization header format''"
    by (simp add: APIKeyMiddleware_guarded)
next
  assume "apiKey \<noteq> '''' \<and> Path c \<noteq> ''/health'' \<and> Path c \<noteq> ''/metrics''"
     and "GetHeader c ''Authorization'' \<noteq> ''''
        \<and> length (SplitN_space_2 (GetHeader c ''Authorization'')) = 2
        \<and> SplitN_space_2 (GetHeader c ''Authorization'') ! 0 = ''Bearer''
        \<and> SplitN_space_2 (GetHeader c ''Authorization'') ! 1 \<noteq> apiKey"
  then show "APIKeyMiddleware apiKey c = Abort 401 ''invalid api key''"
    by (simp add: APIKeyMiddleware_guarded)
next
  assume "apiKey \<noteq> '''' \<and> Path c \<noteq> ''/health'' \<and> Path c \<noteq> ''/metrics''"
     and "APIKeyMiddleware apiKey c \<noteq> Next"
  then show "\<exists>msg. APIKeyMiddleware apiKey c = Abort 401 msg"
    using guarded_401 by blast
qed

theorem APIKeyMiddleware_authorization_witness:
  "APIKeyMiddleware ''s3cret''
        \<lparr>Path = ''/api/v1/jobs'', Header = [''Authorization'' \<mapsto> ''Bearer s3cret'']\<rparr> = Next
   \<and> APIKeyMiddleware ''s3cret'' \<lparr>Path = ''/api/v1/jobs'', Header = Map.empty\<rparr>
        = Abort 401 ''missing authorization header''
   \<and> APIKeyMiddleware ''s3cret'' \<lparr>Path = ''/metrics'', Header = Map.empty\<rparr> = Next"
proof -
  have 1: "APIKeyMiddleware ''s3cret''
        \<lparr>Path = ''/api/v1/jobs'', Header = [''Authorization'' \<mapsto> ''Bearer s3cret'']\<rparr> = Next"
    using APIKeyMiddleware_authorization
          [of "\<lparr>Path = ''/api/v1/jobs'', Header = [''Authorization'' \<mapsto> ''Bearer s3cret'']\<rparr>" "''s3cret''"]
    by (simp add: GetHeader_def)
  have 2: "APIKeyMiddleware ''s3cret'' \<lparr>Path = ''/api/v1/jobs'', Header = Map.empty\<rparr>
        = Abort 401 ''missing authorization header''"
    using APIKeyMiddleware_authorization
          [of "\<lparr>Path = ''/api/v1/jobs'', Header = Map.empty\<rparr>" "''s3cret''"]
    by (simp add: GetHeader_def)
  have 3: "APIKeyMiddleware ''s3cret'' \<lparr>Path = ''/metrics'', Header = Map.empty\<rparr> = Next"
    using APIKeyMiddleware_authorization
          [of "\<lparr>Path = ''/metrics'', Header = Map.empty\<rparr>" "''s3cret''"]
    by simp
  show ?thesis using 1 2 3 by blast
qed


section \<open>Properties of the worker selection\<close>

lemma go_rem_mod: "0 \<le> a \<Longrightarrow> 0 < b \<Longrightarrow> go_rem a b = a mod b"
  by (cases "a = 0") (simp_all add: go_rem_def)

lemma SelectWorker_loop_char:
  assumes "0 \<le> startIdx" "workers b \<noteq> []"
  shows "SelectWorker_loop env b startIdx i =
     (case find (\<lambda>j. accepts env j (workers b ! nat ((startIdx + int j) mod int (length (workers b)))))
                [i..<length (workers b)] of
        None \<Rightarrow> (b, Err (NoAvailableWorkers (length (workers b))))
      | Some j \<Rightarrow>
          (b\<lparr>lastWorkerIndex := (startIdx + int j) mod int (length (workers b))\<rparr>,
           Ok (workers b ! nat ((startIdx + int j) mod int (length (workers b))),
               the (probe_conn env j (workers b ! nat ((startIdx + int j) mod int (length (workers b))))))))"
proof (induction "length (workers b) - i" arbitrary: i)
  case 0
  then have "\<not> i < length (workers b)" by simp
  then show ?case
    by (subst SelectWorker_loop.simps) simp
next
  case (Suc k)
  then have lt: "i < length (workers b)" by simp
  have k: "k = length (workers b) - (i + 1)" using Suc.hyps(2) by simp
  note IH = Suc.hyps(1) [OF k]
  have n: "0 < int (length (workers b))" using assms(2) by simp
  have r: "go_rem (startIdx + int i) (int (length (workers b)))
           = (startIdx + int i) mod int (length (workers b))"
    using assms(1) n by (intro go_rem_mod) simp_all
  have lo: "0 \<le> (startIdx + int i) mod int (length (workers b))"
    using n by simp
  have hi: "(startIdx + int i) mod int (length (workers b)) < int (length (workers b))"
    using n by simp
  have u: "[i..<length (workers b)] = i # [i + 1..<length (workers b)]"
    using lt by (simp add: upt_conv_Cons)
  define w where "w = workers b ! nat ((startIdx + int i) mod int (length (workers b)))"
  have step: "SelectWorker_loop env b startIdx i =
     (case getWorkerStatus env i w of
        ProbeFailed err \<Rightarrow> SelectWorker_loop env b startIdx (i + 1)
      | ProbeOk c status \<Rightarrow>
          if CurrentJobs status < MaxConcurrentJobs status
          then (b\<lparr>lastWorkerIndex := (startIdx + int i) mod int (length (workers b))\<rparr>, Ok (w, c))
          else SelectWorker_loop env b startIdx (i + 1))"
    unfolding w_def using lt lo hi by (subst SelectWorker_loop.simps) (simp add: r Let_def)
  show ?case
  proof (cases "accepts env i w")
    case True
    then obtain c st where p: "getWorkerStatus env i w = ProbeOk c st"
      and cap: "CurrentJobs st < MaxConcurrentJobs st"
      by (auto simp: accepts_def split: probe_result.splits)
    have "probe_conn env i w = Some c" using p by (simp add: probe_conn_def)
    then show ?thesis
      using True p cap unfolding step u w_def by simp
  next
    case False
    then have "SelectWorker_loop env b startIdx i = SelectWorker_loop env b startIdx (i + 1)"
      unfolding step by (auto simp: accepts_def split: probe_result.splits)
    then show ?thesis
      using False IH unfolding u w_def by simp
  qed
qed

lemma SelectWorker_char:
  assumes "balancer_inv b"
  shows "SelectWorker env b =
     (case find (\<lambda>j. accepts env j
                    (workers b ! nat ((lastWorkerIndex b + 1 + int j) mod int (length (workers b)))))
                [0..<length (workers b)] of
        None \<Rightarrow> (b, Err (NoAvailableWorkers (length (workers b))))
      | Some j \<Rightarrow>
          (b\<lparr>lastWorkerIndex := (lastWorkerIndex b + 1 + int j) mod int (length (workers b))\<rparr>,
           Ok (workers b ! nat ((lastWorkerIndex b + 1 + int j) mod int (length (workers b))),
               the (probe_conn env j
                 (workers b ! nat ((lastWorkerIndex b + 1 + int j) mod int (length (workers b))))))))"
proof -
  have ne: "workers b \<noteq> []" and lo: "0 \<le> lastWorkerIndex b + 1"
    using assms by (simp_all add: balancer_inv_def)
  have n: "0 < int (length (workers b))" using ne by simp
  have s: "go_rem (lastWorkerIndex b + 1) (int (length (workers b)))
           = (lastWorkerIndex b + 1) mod int (length (workers b))"
    using lo n by (rule go_rem_mod)
  have s0: "0 \<le> (lastWorkerIndex b + 1) mod int (length (workers b))"
    using n by simp
  have m: "\<And>j. ((lastWorkerIndex b + 1) mod int (length (workers b)) + int j) mod int (length (workers b))
           = (lastWorkerIndex b + 1 + int j) mod int (length (workers b))"
    by (simp add: mod_add_left_eq)
  have "SelectWorker env b
        = SelectWorker_loop env b ((lastWorkerIndex b + 1) mod int (length (workers b))) 0"
    using ne by (simp add: SelectWorker_def s)
  also note SelectWorker_loop_char [OF s0 ne, of env 0]
  finally show ?thesis unfolding m .
qed

text \<open>
  Claim C6. Take a Balancer with at least one worker whose cursor lies between \<open>-1\<close>
  and the last index. When \<open>SelectWorker\<close> succeeds, the new \<open>lastWorkerIndex\<close> is the
  index of the returned worker: the returned address is the entry of the worker list at
  the new cursor, it is the first index in scan order from the old cursor plus one whose
  probe succeeded with spare capacity, and the returned connection is that probe's. When
  \<open>SelectWorker\<close> fails, every probe was rejected and the Balancer is unchanged. On such
  a Balancer \<open>SelectWorker\<close> does not panic.
\<close>

theorem SelectWorker_cursor:
  assumes "balancer_inv b"
  shows "(\<forall>b' w c. SelectWorker env b = (b', Ok (w, c)) \<longrightarrow>
            workers b' = workers b
          \<and> 0 \<le> lastWorkerIndex b' \<and> lastWorkerIndex b' < int (length (workers b))
          \<and> w = workers b ! nat (lastWorkerIndex b')
          \<and> (\<exists>i < length (workers b).
                lastWorkerIndex b' = (lastWorkerIndex b + 1 + int i) mod int (length (workers b))
              \<and> accepts env i w \<and> probe_conn env i w = Some c
              \<and> (\<forall>j < i. \<not> accepts env j
                    (workers b ! nat ((lastWorkerIndex b + 1 + int j) mod int (length (workers b)))))))
       \<and> (\<forall>b' e. SelectWorker env b = (b', Err e) \<longrightarrow>
            b' = b
          \<and> (\<forall>i < length (workers b). \<not> accepts env i
                (workers b ! nat ((lastWorkerIndex b + 1 + int i) mod int (length (workers b))))))
       \<and> (\<forall>b' p. SelectWorker env b \<noteq> (b', Panic p))"
proof -
  let ?n = "length (workers b)"
  let ?w = "\<lambda>j. workers b ! nat ((lastWorkerIndex b + 1 + int j) mod int ?n)"
  let ?P = "\<lambda>j. accepts env j (?w j)"
  have n: "0 < int ?n" using assms by (simp add: balancer_inv_def)
  note ch = SelectWorker_char [OF assms, of env]
  show ?thesis
  proof (cases "find ?P [0..<?n]")
    case None
    then have r: "SelectWorker env b = (b, Err (NoAvailableWorkers ?n))"
      using ch by simp
    have "\<forall>i < ?n. \<not> ?P i"
      using None by (auto simp: find_None_iff)
    then show ?thesis unfolding r by simp
  next
    case (Some i)
    then have r: "SelectWorker env b =
        (b\<lparr>lastWorkerIndex := (lastWorkerIndex b + 1 + int i) mod int ?n\<rparr>,
         Ok (?w i, the (probe_conn env i (?w i))))"
      using ch by simp
    from Some have i: "i < ?n" and Pi: "?P i" and before: "\<forall>j < i. \<not> ?P j"
      by (auto simp: find_Some_iff)
    from Pi obtain c where c: "probe_conn env i (?w i) = Some c"
      by (auto simp: accepts_def probe_conn_def split: probe_result.splits)
    have lo: "0 \<le> (lastWorkerIndex b + 1 + int i) mod int ?n"
      and hi: "(lastWorkerIndex b + 1 + int i) mod int ?n < int ?n"
      using n by simp_all
    show ?thesis
      unfolding r using i Pi before c lo hi by auto
  qed
qed

lemma New_inv: "ws \<noteq> [] \<Longrightarrow> balancer_inv (New ws t)"
  by (simp add: balancer_inv_def New_def)

lemma SelectWorker_keeps_inv:
  assumes "balancer_inv b"
  shows "balancer_inv (fst (SelectWorker env b))"
proof (cases "find (\<lambda>j. accepts env j
                    (workers b ! nat ((lastWorkerIndex b + 1 + int j) mod int (length (workers b)))))
                [0..<length (workers b)]")
  case None
  then show ?thesis
    unfolding SelectWorker_char [OF assms] using assms by simp
next
  case (Some j)
  have n: "0 < int (length (workers b))" using assms by (simp add: balancer_inv_def)
  have "0 \<le> (lastWorkerIndex b + 1 + int j) mod int (length (workers b))"
    using n by simp
  then have lo: "- 1 \<le> (lastWorkerIndex b + 1 + int j) mod int (length (workers b))"
    by linarith
  have hi: "(lastWorkerIndex b + 1 + int j) mod int (length (workers b)) < int (length (workers b))"
    using n by simp
  show ?thesis
    unfolding SelectWorker_char [OF assms] using Some assms lo hi
    by (simp add: balancer_inv_def)
qed

lemma Split_comma_nonempty: "Split_comma s \<noteq> []"
  by (induction s) (auto split: list.splits)

lemma main_workerNodes_nonempty: "main_workerNodes s = Some ws \<Longrightarrow> ws \<noteq> []"
  by (auto simp: main_workerNodes_def Split_comma_nonempty split: if_splits)

theorem SelectWorker_cursor_witness:
  "balancer_inv (New [''w1:50051'', ''w2:50051'', ''w3:50051''] 60)
   \<and> SelectWorker
        (\<lambda>i w. if w = ''w3:50051'' then ProbeOk (Conn w) \<lparr>CurrentJobs = 0, MaxConcurrentJobs = 2\<rparr>
                else if w = ''w2:50051'' then ProbeOk (Conn w) \<lparr>CurrentJobs = 2, MaxConcurrentJobs = 2\<rparr>
                else ProbeFailed ''unavailable'')
        (New [''w1:50051'', ''w2:50051'', ''w3:50051''] 60)
      = (\<lparr>workers = [''w1:50051'', ''w2:50051'', ''w3:50051''], lastWorkerIndex = 2, timeout = 60\<rparr>,
         Ok (''w3:50051'', Conn ''w3:50051''))
   \<and> ''w3:50051'' = [''w1:50051'', ''w2:50051'', ''w3:50051''] ! nat 2
   \<and> SelectWorker (\<lambda>i w. ProbeFailed ''unavailable'')
        \<lparr>workers = [''w1:50051'', ''w2:50051'', ''w3:50051''], lastWorkerIndex = 2, timeout = 60\<rparr>
      = (\<lparr>workers = [''w1:50051'', ''w2:50051'', ''w3:50051''], lastWorkerIndex = 2, timeout = 60\<rparr>,
         Err (NoAvailableWorkers 3))"
proof -
  let ?ws = "[''w1:50051'', ''w2:50051'', ''w3:50051'']"
  let ?env = "\<lambda>i w. if w = ''w3:50051'' then ProbeOk (Conn w) \<lparr>CurrentJobs = 0, MaxConcurrentJobs = 2\<rparr>
                else if w = ''w2:50051'' then ProbeOk (Conn w) \<lparr>CurrentJobs = 2, MaxConcurrentJobs = 2\<rparr>
                else ProbeFailed ''unavailable''"
  let ?b2 = "\<lparr>workers = ?ws, lastWorkerIndex = 2, timeout = 60\<rparr>"
  have inv: "balancer_inv (New ?ws 60)"
    by (simp add: balancer_inv_def New_def)
  have e1: "SelectWorker ?env (New ?ws 60) = (?b2, Ok (''w3:50051'', Conn ''w3:50051''))"
    by (simp add: SelectWorker_def SelectWorker_loop.simps New_def go_rem_def getWorkerStatus_def Let_def)
  have e2: "SelectWorker (\<lambda>i w. ProbeFailed ''unavailable'') ?b2 = (?b2, Err (NoAvailableWorkers 3))"
    by (simp add: SelectWorker_def SelectWorker_loop.simps go_rem_def getWorkerStatus_def Let_def)
  have "''w3:50051'' = workers (New ?ws 60) ! nat (lastWorkerIndex ?b2)"
    using SelectWorker_cursor [OF inv, of ?env] e1 by blast
  then have w: "''w3:50051'' = ?ws ! nat 2"
    by (simp add: New_def)
  show ?thesis using inv e1 e2 w by blast
qed

text \<open>
  Claim C3, as the code has it. On a Balancer with at least one worker, when every probe
  of the scan fails or reports no spare capacity, \<open>SelectWorker\<close> returns the
  no-available-workers error and \<open>CreateJob\<close> answers 503 with the error text
  \<open>no available workers\<close>. On an empty worker list \<open>SelectWorker\<close> panics in the
  division that computes the start index, and so does \<open>CreateJob\<close>. The start-up code
  never builds such a Balancer: it stops on an empty \<open>WORKER_NODES\<close> and otherwise
  passes a list of at least one address.
\<close>

theorem no_available_workers:
  "(balancer_inv b
      \<and> (\<forall>i < length (workers b). \<not> accepts env i
            (workers b ! nat ((lastWorkerIndex b + 1 + int i) mod int (length (workers b)))))
     \<longrightarrow> SelectWorker env b = (b, Err (NoAvailableWorkers (length (workers b))))
       \<and> CreateJob env b None = (b, Ok (JSON 503 ''no available workers'')))
   \<and> (workers b = []
     \<longrightarrow> SelectWorker env b = (b, Panic ''integer divide by zero'')
       \<and> CreateJob env b None = (b, Panic ''integer divide by zero''))
   \<and> (\<forall>ws. main_workerNodes s = Some ws \<longrightarrow> ws \<noteq> [] \<and> balancer_inv (New ws t))"
proof (intro conjI impI allI)
  assume a: "balancer_inv b
      \<and> (\<forall>i < length (workers b). \<not> accepts env i
            (workers b ! nat ((lastWorkerIndex b + 1 + int i) mod int (length (workers b)))))"
  then have "find (\<lambda>j. accepts env j
                    (workers b ! nat ((lastWorkerIndex b + 1 + int j) mod int (length (workers b)))))
                [0..<length (workers b)] = None"
    by (simp add: find_None_iff)
  then show r: "SelectWorker env b = (b, Err (NoAvailableWorkers (length (workers b))))"
    using a SelectWorker_char [of b env] by simp
  show "CreateJob env b None = (b, Ok (JSON 503 ''no available workers''))"
    by (simp add: CreateJob_def r)
next
  assume e: "workers b = []"
  then show r: "SelectWorker env b = (b, Panic ''integer divide by zero'')"
    by (simp add: SelectWorker_def)
  show "CreateJob env b None = (b, Panic ''integer divide by zero'')"
    by (simp add: CreateJob_def r)
next
  fix ws assume "main_workerNodes s = Some ws"
  then show "ws \<noteq> []" by (rule main_workerNodes_nonempty)
  then show "balancer_inv (New ws t)" by (rule New_inv)
qed

theorem no_available_workers_witness:
  "balancer_inv (New [''w1:50051'', ''w2:50051''] 60)
   \<and> CreateJob (\<lambda>i w. ProbeFailed ''unavailable'') (New [''w1:50051'', ''w2:50051''] 60) None
       = (New [''w1:50051'', ''w2:50051''] 60, Ok (JSON 503 ''no available workers''))
   \<and> main_workerNodes ''w1:50051, w2:50051'' = Some [''w1:50051'', ''w2:50051'']"
proof -
  let ?b = "New [''w1:50051'', ''w2:50051''] 60"
  let ?env = "\<lambda>i w. ProbeFailed ''unavailable''"
  have inv: "balancer_inv ?b"
    by (simp add: balancer_inv_def New_def)
  have na: "\<forall>i < length (workers ?b). \<not> accepts ?env i
            (workers ?b ! nat ((lastWorkerIndex ?b + 1 + int i) mod int (length (workers ?b))))"
    by (simp add: accepts_def getWorkerStatus_def)
  have c: "CreateJob ?env ?b None = (?b, Ok (JSON 503 ''no available workers''))"
    using no_available_workers [of ?b ?env] inv na by blast
  have m: "main_workerNodes ''w1:50051, w2:50051'' = Some [''w1:50051'', ''w2:50051'']"
    by (simp add: main_workerNodes_def TrimSpace_def isSpace_def)
  show ?thesis using inv c m by blast
qed

text \<open>A Balancer built on an empty list: the selection and the job submission both
  end in the division panic, and no error value is returned.\<close>

theorem empty_worker_list_counterexample:
  "SelectWorker (\<lambda>i w. ProbeFailed ''unavailable'') (New [] 60)
     = (New [] 60, Panic ''integer divide by zero'')
   \<and> CreateJob (\<lambda>i w. ProbeFailed ''unavailable'') (New [] 60) None
     = (New [] 60, Panic ''integer divide by zero'')"
  by (simp add: SelectWorker_def CreateJob_def New_def)


section \<open>Properties of the retry helper\<close>

lemma go_trunc_of_int: "go_trunc (of_int n) = n"
  by (simp add: go_trunc_def)

lemma next_wait_default: "next_wait DefaultConfig w = min (2 * w) (30 * Second)"
proof -
  have "(of_int w :: rat) * 2 = of_int (2 * w)" by simp
  then have "go_trunc (of_int w * Multiplier DefaultConfig) = 2 * w"
    by (simp only: DefaultConfig_def Config.simps go_trunc_of_int)
  then show ?thesis
    by (simp add: next_wait_def Let_def DefaultConfig_def min_def)
qed

lemma backoff_schedule:
  "(next_wait DefaultConfig ^^ k) (InitialWait DefaultConfig) = min (2 ^ k * Second) (30 * Second)"
proof (induction k)
  case 0
  then show ?case by (simp add: DefaultConfig_def Second_def)
next
  case (Suc k)
  have "0 < Second" by (simp add: Second_def)
  then show ?case
    using Suc by (simp add: next_wait_default min_def)
qed

lemma Do_default_unfold:
  "Do DefaultConfig fn ctx =
     (case fn 1 of
        None \<Rightarrow> ([Invoke 1], Success)
      | Some e1 \<Rightarrow>
          if ctx 1 then ([Invoke 1, Interrupted (1 * Second)], RetryCancelled)
          else
            (case fn 2 of
               None \<Rightarrow> ([Invoke 1, Waited (1 * Second), Invoke 2], Success)
             | Some e2 \<Rightarrow>
                 if ctx 2
                 then ([Invoke 1, Waited (1 * Second), Invoke 2, Interrupted (2 * Second)],
                       RetryCancelled)
                 else
                   (case fn 3 of
                      None \<Rightarrow> ([Invoke 1, Waited (1 * Second), Invoke 2, Waited (2 * Second),
                                 Invoke 3], Success)
                    | Some e3 \<Rightarrow> ([Invoke 1, Waited (1 * Second), Invoke 2, Waited (2 * Second),
                                    Invoke 3], MaxAttemptsReached 3 (Some e3)))))"
proof -
  have m: "MaxAttempts DefaultConfig = 3" and i: "InitialWait DefaultConfig = 1 * Second"
    by (simp_all add: DefaultConfig_def)
  have w1: "next_wait DefaultConfig Second = 2 * Second"
    by (simp add: next_wait_default Second_def)
  have s3: "\<And>w l tr. Do_loop DefaultConfig fn ctx 3 w l tr =
      (case fn 3 of None \<Rightarrow> (tr @ [Invoke 3], Success)
       | Some e3 \<Rightarrow> (tr @ [Invoke 3], MaxAttemptsReached 3 (Some e3)))"
    by (subst Do_loop.simps) (simp add: m split: option.splits)
  have s2: "\<And>l tr. Do_loop DefaultConfig fn ctx 2 (2 * Second) l tr =
      (case fn 2 of None \<Rightarrow> (tr @ [Invoke 2], Success)
       | Some e2 \<Rightarrow>
           if ctx 2 then (tr @ [Invoke 2, Interrupted (2 * Second)], RetryCancelled)
           else Do_loop DefaultConfig fn ctx 3 (next_wait DefaultConfig (2 * Second)) (Some e2)
                  (tr @ [Invoke 2, Waited (2 * Second)]))"
    by (subst Do_loop.simps) (simp add: m numeral_3_eq_3 numeral_2_eq_2 split: option.splits)
  have s1: "Do_loop DefaultConfig fn ctx 1 (1 * Second) None [] =
      (case fn 1 of None \<Rightarrow> ([Invoke 1], Success)
       | Some e1 \<Rightarrow>
           if ctx 1 then ([Invoke 1, Interrupted (1 * Second)], RetryCancelled)
           else Do_loop DefaultConfig fn ctx 2 (2 * Second) (Some e1)
                  ([Invoke 1, Waited (1 * Second)]))"
    by (subst Do_loop.simps) (simp add: m w1 numeral_2_eq_2 split: option.splits)
  show ?thesis
    unfolding Do_def i s1 s2 s3 by (simp split: option.splits)
qed

lemma Do_default_success:
  assumes k: "1 \<le> k" "k \<le> 3"
    and before: "\<forall>i. 1 \<le> i \<and> i < k \<longrightarrow> fn i \<noteq> None \<and> \<not> ctx i"
    and ok: "fn k = None"
  shows "snd (Do DefaultConfig fn ctx) = Success \<and> invocations (fst (Do DefaultConfig fn ctx)) = k"
proof -
  from k have "k = 1 \<or> k = 2 \<or> k = 3" by arith
  then show ?thesis
  proof (elim disjE)
    assume "k = 1"
    then show ?thesis
      using ok by (simp add: Do_default_unfold invocations_def)
  next
    assume k2: "k = 2"
    then have "fn 1 \<noteq> None \<and> \<not> ctx 1" using before by simp
    then show ?thesis
      using ok k2 by (auto simp: Do_default_unfold invocations_def)
  next
    assume k3: "k = 3"
    then have "fn 1 \<noteq> None \<and> \<not> ctx 1" and "fn 2 \<noteq> None \<and> \<not> ctx 2"
      using before by simp_all
    then show ?thesis
      using ok k3 by (auto simp: Do_default_unfold invocations_def)
  qed
qed

lemma Do_default_exhausted:
  assumes fails: "\<forall>i. 1 \<le> i \<and> i \<le> 3 \<longrightarrow> fn i \<noteq> None"
    and nocancel: "\<forall>i. 1 \<le> i \<and> i < 3 \<longrightarrow> \<not> ctx i"
  shows "snd (Do DefaultConfig fn ctx) = MaxAttemptsReached 3 (fn 3)
       \<and> invocations (fst (Do DefaultConfig fn ctx)) = 3
       \<and> waits (fst (Do DefaultConfig fn ctx)) = [1 * Second, 2 * Second]"
proof -
  have f: "fn 1 \<noteq> None" "fn 2 \<noteq> None" "fn 3 \<noteq> None"
    using fails by simp_all
  have c: "\<not> ctx 1" "\<not> ctx 2"
    using nocancel by simp_all
  show ?thesis
    using f c by (auto simp: Do_default_unfold invocations_def)
qed

lemma Do_default_cancelled:
  assumes k: "1 \<le> k" "k < 3"
    and fails: "\<forall>i. 1 \<le> i \<and> i \<le> k \<longrightarrow> fn i \<noteq> None"
    and before: "\<forall>i. 1 \<le> i \<and> i < k \<longrightarrow> \<not> ctx i"
    and cancel: "ctx k"
  shows "snd (Do DefaultConfig fn ctx) = RetryCancelled
       \<and> invocations (fst (Do DefaultConfig fn ctx)) = k
       \<and> (\<exists>tr w. fst (Do DefaultConfig fn ctx) = tr @ [Invoke k, Interrupted w])"
proof -
  from k have "k = 1 \<or> k = 2" by arith
  then show ?thesis
  proof (elim disjE)
    assume k1: "k = 1"
    then have "fn 1 \<noteq> None" using fails by simp
    then show ?thesis
      using cancel k1 by (auto simp: Do_default_unfold invocations_def)
  next
    assume k2: "k = 2"
    then have "fn 1 \<noteq> None" "fn 2 \<noteq> None" "\<not> ctx 1"
      using fails before by simp_all
    then show ?thesis
      using cancel k2 by (auto simp: Do_default_unfold invocations_def)
  qed
qed

lemma Do_default_waits:
  "prefix (waits (fst (Do DefaultConfig fn ctx))) [1 * Second, 2 * Second]"
  by (simp add: Do_default_unfold split: option.splits)

text \<open>
  Claim C9, for \<open>DefaultConfig\<close>. If the operation succeeds at its \<open>k\<close>-th invocation,
  \<open>k\<close> at most 3, having failed before with no cancellation during the waits, \<open>Do\<close>
  returns success after exactly \<open>k\<close> invocations. If all three invocations fail, \<open>Do\<close>
  returns the max-attempts error, carrying the last error, after exactly three
  invocations and waits of 1 s and 2 s. The first wait is 1 s, each next wait is twice
  the last one, and never more than 30 s: the \<open>n\<close>-th wait of the schedule is the
  smaller of \<open>2^n\<close> s and 30 s, and the waits of a run are a prefix of 1 s, 2 s. If the
  context is done during the wait after the \<open>j\<close>-th failed invocation, \<open>Do\<close> returns
  the cancellation error and the operation has been invoked exactly \<open>j\<close> times: the
  interrupted wait is the last thing that happened.
\<close>

theorem Do_default_retry:
  "(1 \<le> k \<and> k \<le> 3 \<and> (\<forall>i. 1 \<le> i \<and> i < k \<longrightarrow> fn i \<noteq> None \<and> \<not> ctx i) \<and> fn k = None
      \<longrightarrow> snd (Do DefaultConfig fn ctx) = Success
        \<and> invocations (fst (Do DefaultConfig fn ctx)) = k)
   \<and> ((\<forall>i. 1 \<le> i \<and> i \<le> 3 \<longrightarrow> fn i \<noteq> None) \<and> (\<forall>i. 1 \<le> i \<and> i < 3 \<longrightarrow> \<not> ctx i)
      \<longrightarrow> snd (Do DefaultConfig fn ctx) = MaxAttemptsReached 3 (fn 3)
        \<and> invocations (fst (Do DefaultConfig fn ctx)) = 3
        \<and> waits (fst (Do DefaultConfig fn ctx)) = [1 * Second, 2 * Second])
   \<and> InitialWait DefaultConfig = 1 * Second
   \<and> next_wait DefaultConfig w = min (2 * w) (30 * Second)
   \<and> (next_wait DefaultConfig ^^ n) (InitialWait DefaultConfig) = min (2 ^ n * Second) (30 * Second)
   \<and> prefix (waits (fst (Do DefaultConfig fn ctx))) [1 * Second, 2 * Second]
   \<and> (1 \<le> j \<and> j < 3 \<and> (\<forall>i. 1 \<le> i \<and> i \<le> j \<longrightarrow> fn i \<noteq> None)
        \<and> (\<forall>i. 1 \<le> i \<and> i < j \<longrightarrow> \<not> ctx i) \<and> ctx j
      \<longrightarrow> snd (Do DefaultConfig fn ctx) = RetryCancelled
        \<and> invocations (fst (Do DefaultConfig fn ctx)) = j
        \<and> (\<exists>tr w. fst (Do DefaultConfig fn ctx) = tr @ [Invoke j, Interrupted w]))"
proof (intro conjI)
  show "1 \<le> k \<and> k \<le> 3 \<and> (\<forall>i. 1 \<le> i \<and> i < k \<longrightarrow> fn i \<noteq> None \<and> \<not> ctx i) \<and> fn k = None
      \<longrightarrow> snd (Do DefaultConfig fn ctx) = Success
        \<and> invocations (fst (Do DefaultConfig fn ctx)) = k"
    using Do_default_success [of k fn ctx] by blast
  show "(\<forall>i. 1 \<le> i \<and> i \<le> 3 \<longrightarrow> fn i \<noteq> None) \<and> (\<forall>i. 1 \<le> i \<and> i < 3 \<longrightarrow> \<not> ctx i)
      \<longrightarrow> snd (Do DefaultConfig fn ctx) = MaxAttemptsReached 3 (fn 3)
        \<and> invocations (fst (Do DefaultConfig fn ctx)) = 3
        \<and> waits (fst (Do DefaultConfig fn ctx)) = [1 * Second, 2 * Second]"
    using Do_default_exhausted [of fn ctx] by blast
  show "InitialWait DefaultConfig = 1 * Second"
    by (simp add: DefaultConfig_def)
  show "next_wait DefaultConfig w = min (2 * w) (30 * Second)"
    by (rule next_wait_default)
  show "(next_wait DefaultConfig ^^ n) (InitialWait DefaultConfig) = min (2 ^ n * Second) (30 * Second)"
    by (rule backoff_schedule)
  show "prefix (waits (fst (Do DefaultConfig fn ctx))) [1 * Second, 2 * Second]"
    by (rule Do_default_waits)
  show "1 \<le> j \<and> j < 3 \<and> (\<forall>i. 1 \<le> i \<and> i \<le> j \<longrightarrow> fn i \<noteq> None)
        \<and> (\<forall>i. 1 \<le> i \<and> i < j \<longrightarrow> \<not> ctx i) \<and> ctx j
      \<longrightarrow> snd (Do DefaultConfig fn ctx) = RetryCancelled
        \<and> invocations (fst (Do DefaultConfig fn ctx)) = j
        \<and> (\<exists>tr w. fst (Do DefaultConfig fn ctx) = tr @ [Invoke j, Interrupted w])"
    using Do_default_cancelled [of j fn ctx] by blast
qed

theorem Do_default_retry_witness:
  "Do DefaultConfig (\<lambda>k. if k < 2 then Some ''timeout'' else None) (\<lambda>k. False)
     = ([Invoke 1, Waited 1000000000, Invoke 2], Success)
   \<and> invocations (fst (Do DefaultConfig (\<lambda>k. if k < 2 then Some ''timeout'' else None) (\<lambda>k. False))) = 2
   \<and> snd (Do DefaultConfig (\<lambda>k. Some ''timeout'') (\<lambda>k. False)) = MaxAttemptsReached 3 (Some ''timeout'')
   \<and> waits (fst (Do DefaultConfig (\<lambda>k. Some ''timeout'') (\<lambda>k. False))) = [1000000000, 2000000000]
   \<and> snd (Do DefaultConfig (\<lambda>k. Some ''timeout'') (\<lambda>k. k = 2)) = RetryCancelled
   \<and> invocations (fst (Do DefaultConfig (\<lambda>k. Some ''timeout'') (\<lambda>k. k = 2))) = 2"
proof -
  let ?f = "\<lambda>k::nat. if k < 2 then Some ''timeout'' else None"
  let ?g = "\<lambda>k::nat. Some ''timeout''"
  let ?n = "\<lambda>k::nat. False"
  have e: "Do DefaultConfig ?f ?n = ([Invoke 1, Waited 1000000000, Invoke 2], Success)"
    by (simp add: Do_default_unfold Second_def)
  have a: "invocations (fst (Do DefaultConfig ?f ?n)) = 2"
    using Do_default_retry [of 2 ?f ?n] by simp
  have b: "snd (Do DefaultConfig ?g ?n) = MaxAttemptsReached 3 (Some ''timeout'')
         \<and> waits (fst (Do DefaultConfig ?g ?n)) = [1000000000, 2000000000]"
    using Do_default_retry [of 1 ?g ?n] by (simp add: Second_def)
  have c: "snd (Do DefaultConfig ?g (\<lambda>k. k = 2)) = RetryCancelled
         \<and> invocations (fst (Do DefaultConfig ?g (\<lambda>k. k = 2))) = 2"
    using Do_default_retry [of 1 ?g "\<lambda>k. k = 2" _ _ 2] by auto
  show ?thesis using e a b c by blast
qed


section \<open>Properties of the progress notifications\<close>



lemma callbacks_append: "callbacks (xs @ ys) = callbacks xs @ callbacks ys"
  by (induction xs rule: callbacks.induct) simp_all
















section \<open>Properties of the job stream and of the retirement\<close>

lemma parseProgress_le_100: "fst (parseProgress pf l d) \<le> 100"
  by (simp add: parseProgress_def Let_def split: option.splits)

lemma callbacks_loop_le_100:
  "(p, m) \<in> set (callbacks (readFFmpegProgress_loop pf d lines prev)) \<Longrightarrow> p \<le> 100"
proof (induction lines arbitrary: prev)
  case Nil
  then show ?case by simp
next
  case (Cons l ls)
  obtain q ok where pp: "parseProgress pf l d = (q, ok)" by (cases "parseProgress pf l d")
  have q: "q \<le> 100" using parseProgress_le_100 [of pf l d] by (simp add: pp)
  show ?case
    using Cons.prems Cons.IH q
    by (cases ok; cases "find_frame l") (auto simp: pp Let_def callbacks_append split: if_splits)
qed

lemma Encode_calls_le_100:
  assumes "(p, m) \<in> set (fst (Encode pf env))"
  shows "p \<le> 100"
proof -
  from assms have "\<exists>d. (p, m) \<in> set (callbacks (readFFmpegProgress pf (stderr_lines env) d))"
    by (auto simp: Encode_def Let_def split: option.splits)
  then show ?thesis
    unfolding readFFmpegProgress_def using callbacks_loop_le_100 by blast
qed

lemma SubmitJob_body_le_100:
  assumes "msg \<in> set (fst (SubmitJob_body pf env req))"
  shows "Progress msg \<le> 100"
proof -
  obtain calls result where e: "Encode pf (encode env) = (calls, result)"
    by (cases "Encode pf (encode env)")
  have c: "\<And>p m. (p, m) \<in> set calls \<Longrightarrow> p \<le> 100"
    using Encode_calls_le_100 [of _ _ pf "encode env"] by (simp add: e)
  from assms show ?thesis
    by (auto simp: SubmitJob_body_def e Let_def progress_msg_def
             split: if_splits sum.splits option.splits dest: c)
qed

text \<open>
  Claim C8. Every message \<open>SubmitJob\<close> passes to \<open>stream.Send\<close> (the QUEUED and the
  first PROCESSING message, every notification of the callback, the UPLOADING message
  and the final COMPLETED or FAILED message) carries a progress of at most 100, for
  every environment: every duration, every line of encoder output, every result of
  \<open>ParseFloat\<close>. The percentage \<open>parseProgress\<close> computes is at most 100. The
  source applies the clamp to the \<open>float32\<close> value it returns, so the bound does not
  depend on how the quotient was rounded.
\<close>

theorem stream_progress_at_most_100:
  "(msg \<in> set (fst (snd (SubmitJob pf env s req))) \<longrightarrow> Progress msg \<le> 100)
   \<and> fst (parseProgress pf line duration) \<le> 100"
proof
  show "msg \<in> set (fst (snd (SubmitJob pf env s req))) \<longrightarrow> Progress msg \<le> 100"
  proof
    assume "msg \<in> set (fst (snd (SubmitJob pf env s req)))"
    then have "msg \<in> set (fst (SubmitJob_body pf env req))"
      by (auto simp: SubmitJob_def Let_def split: if_splits prod.splits)
    then show "Progress msg \<le> 100" by (rule SubmitJob_body_le_100)
  qed
  show "fst (parseProgress pf line duration) \<le> 100"
    by (rule parseProgress_le_100)
qed

lemma find_out_time_ms_225: "find_out_time_ms ''out_time_ms=9000000'' = Some ''9000000''"
  by code_simp

lemma find_frame_225: "find_frame ''out_time_ms=9000000'' = None"
  by code_simp

lemma parseProgress_225: "parseProgress ParseFloat_digits ''out_time_ms=9000000'' 4 = (100, True)"
  unfolding parseProgress_def find_out_time_ms_225
  by (simp add: ParseFloat_digits_def digits_value_def)

lemma readFFmpegProgress_225:
  "readFFmpegProgress ParseFloat_digits [''out_time_ms=9000000''] 4
   = [LogProgress 100, Callback 100 (PercentText 100)]"
  unfolding readFFmpegProgress_def readFFmpegProgress_loop.simps find_frame_225 parseProgress_225
  by simp

lemma Encode_example:
  "Encode ParseFloat_digits
     \<lparr>preset_err = None, mkdir_err = None, paths_err = None, pipe_err = None, start_err = None,
      duration_probe = Inr 4, stderr_lines = [''out_time_ms=9000000''], wait_err = None,
      validate_err = None, output_path = ''/work/job1/output.mp4''\<rparr>
   = ([(100, PercentText 100)], Inr ''/work/job1/output.mp4'')"
  by (simp add: Encode_def readFFmpegProgress_225)

lemma SubmitJob_body_example:
  "SubmitJob_body ParseFloat_digits
     \<lparr>encode = \<lparr>preset_err = None, mkdir_err = None, paths_err = None, pipe_err = None,
                 start_err = None, duration_probe = Inr 4,
                 stderr_lines = [''out_time_ms=9000000''], wait_err = None,
                 validate_err = None, output_path = ''/work/job1/output.mp4''\<rparr>,
      send_fails = (\<lambda>n. False), stat_err = None, upload = Inr ''file:///out/x.mp4'',
      cleanup_ok = True\<rparr>
     \<lparr>req_JobId = ''job1'', req_InputUrl = ''https://example/x.mp4'',
      req_Preset = ''720p_h264'', req_OutputPath = ''out/x.mp4''\<rparr>
   = ([\<lparr>JobId = ''job1'', Status = QUEUED, Progress = 0, Message = Text ''Job queued'',
        OutputUrl = '''', Error = ''''\<rparr>,
       \<lparr>JobId = ''job1'', Status = PROCESSING, Progress = 0, Message = Text ''Starting encoding'',
        OutputUrl = '''', Error = ''''\<rparr>,
       \<lparr>JobId = ''job1'', Status = PROCESSING, Progress = 100, Message = PercentText 100,
        OutputUrl = '''', Error = ''''\<rparr>,
       \<lparr>JobId = ''job1'', Status = UPLOADING, Progress = 100, Message = Text ''Uploading output'',
        OutputUrl = '''', Error = ''''\<rparr>,
       \<lparr>JobId = ''job1'', Status = COMPLETED, Progress = 100, Message = Text ''Job completed'',
        OutputUrl = ''file:///out/x.mp4'', Error = ''''\<rparr>],
      None, True)"
  by (simp add: SubmitJob_body_def Encode_example progress_msg_def return_send_def)

lemma SubmitJob_example:
  "SubmitJob ParseFloat_digits
     \<lparr>encode = \<lparr>preset_err = None, mkdir_err = None, paths_err = None, pipe_err = None,
                 start_err = None, duration_probe = Inr 4,
                 stderr_lines = [''out_time_ms=9000000''], wait_err = None,
                 validate_err = None, output_path = ''/work/job1/output.mp4''\<rparr>,
      send_fails = (\<lambda>n. False), stat_err = None, upload = Inr ''file:///out/x.mp4'',
      cleanup_ok = True\<rparr>
     \<lparr>activeJobs = 0, maxConcurrent = 1, activeJobIDs = {}, jobDirs = {}\<rparr>
     \<lparr>req_JobId = ''job1'', req_InputUrl = ''https://example/x.mp4'',
      req_Preset = ''720p_h264'', req_OutputPath = ''out/x.mp4''\<rparr>
   = ([\<lparr>activeJobs = 1, maxConcurrent = 1, activeJobIDs = {}, jobDirs = {}\<rparr>,
       \<lparr>activeJobs = 1, maxConcurrent = 1, activeJobIDs = {''job1''}, jobDirs = {}\<rparr>,
       \<lparr>activeJobs = 1, maxConcurrent = 1, activeJobIDs = {''job1''}, jobDirs = {''job1''}\<rparr>,
       \<lparr>activeJobs = 0, maxConcurrent = 1, activeJobIDs = {''job1''}, jobDirs = {''job1''}\<rparr>,
       \<lparr>activeJobs = 0, maxConcurrent = 1, activeJobIDs = {}, jobDirs = {''job1''}\<rparr>,
       \<lparr>activeJobs = 0, maxConcurrent = 1, activeJobIDs = {}, jobDirs = {}\<rparr>],
      [\<lparr>JobId = ''job1'', Status = QUEUED, Progress = 0, Message = Text ''Job queued'',
        OutputUrl = '''', Error = ''''\<rparr>,
       \<lparr>JobId = ''job1'', Status = PROCESSING, Progress = 0, Message = Text ''Starting encoding'',
        OutputUrl = '''', Error = ''''\<rparr>,
       \<lparr>JobId = ''job1'', Status = PROCESSING, Progress = 100, Message = PercentText 100,
        OutputUrl = '''', Error = ''''\<rparr>,
       \<lparr>JobId = ''job1'', Status = UPLOADING, Progress = 100, Message = Text ''Uploading output'',
        OutputUrl = '''', Error = ''''\<rparr>,
       \<lparr>JobId = ''job1'', Status = COMPLETED, Progress = 100, Message = Text ''Job completed'',
        OutputUrl = ''file:///out/x.mp4'', Error = ''''\<rparr>],
      None)"
  unfolding SubmitJob_def SubmitJob_body_example
  by (simp add: retirement_def Cleanup_def creates_job_dir_def)

theorem stream_progress_at_most_100_witness:
  "\<lparr>JobId = ''job1'', Status = PROCESSING, Progress = 100, Message = PercentText 100,
     OutputUrl = '''', Error = ''''\<rparr>
   \<in> set (fst (snd (SubmitJob ParseFloat_digits
     \<lparr>encode = \<lparr>preset_err = None, mkdir_err = None, paths_err = None, pipe_err = None,
                 start_err = None, duration_probe = Inr 4,
                 stderr_lines = [''out_time_ms=9000000''], wait_err = None,
                 validate_err = None, output_path = ''/work/job1/output.mp4''\<rparr>,
      send_fails = (\<lambda>n. False), stat_err = None, upload = Inr ''file:///out/x.mp4'',
      cleanup_ok = True\<rparr>
     \<lparr>activeJobs = 0, maxConcurrent = 1, activeJobIDs = {}, jobDirs = {}\<rparr>
     \<lparr>req_JobId = ''job1'', req_InputUrl = ''https://example/x.mp4'',
      req_Preset = ''720p_h264'', req_OutputPath = ''out/x.mp4''\<rparr>)))
   \<and> Progress \<lparr>JobId = ''job1'', Status = PROCESSING, Progress = 100, Message = PercentText 100,
        OutputUrl = '''', Error = ''''\<rparr> \<le> 100
   \<and> fst (parseProgress ParseFloat_digits ''out_time_ms=9000000'' 4) \<le> 100"
proof -
  let ?msg = "\<lparr>JobId = ''job1'', Status = PROCESSING, Progress = 100, Message = PercentText 100,
     OutputUrl = '''', Error = ''''\<rparr>"
  let ?run = "SubmitJob ParseFloat_digits
     \<lparr>encode = \<lparr>preset_err = None, mkdir_err = None, paths_err = None, pipe_err = None,
                 start_err = None, duration_probe = Inr 4,
                 stderr_lines = [''out_time_ms=9000000''], wait_err = None,
                 validate_err = None, output_path = ''/work/job1/output.mp4''\<rparr>,
      send_fails = (\<lambda>n. False), stat_err = None, upload = Inr ''file:///out/x.mp4'',
      cleanup_ok = True\<rparr>
     \<lparr>activeJobs = 0, maxConcurrent = 1, activeJobIDs = {}, jobDirs = {}\<rparr>
     \<lparr>req_JobId = ''job1'', req_InputUrl = ''https://example/x.mp4'',
      req_Preset = ''720p_h264'', req_OutputPath = ''out/x.mp4''\<rparr>"
  have mem: "?msg \<in> set (fst (snd ?run))"
    unfolding SubmitJob_example by simp
  note t = stream_progress_at_most_100 [where msg = ?msg and pf = ParseFloat_digits
      and line = "''out_time_ms=9000000''" and duration = 4]
  have "Progress ?msg \<le> 100"
    using t mem by blast
  moreover have "fst (parseProgress ParseFloat_digits ''out_time_ms=9000000'' 4) \<le> 100"
    using t by blast
  ultimately show ?thesis using mem by blast
qed

lemma retirement_states:
  "retirement ok jobID s =
     [s\<lparr>activeJobs := activeJobs s - 1\<rparr>,
      s\<lparr>activeJobs := activeJobs s - 1, activeJobIDs := activeJobIDs s - {jobID}\<rparr>,
      Cleanup ok jobID (s\<lparr>activeJobs := activeJobs s - 1, activeJobIDs := activeJobIDs s - {jobID}\<rparr>)]"
  by (simp add: retirement_def Let_def)

text \<open>
  Claim C2, as the code has it. The deferred function decrements the counter first, with
  the table and the job's directory as they were; every state it passes through has the
  counter decremented; the directory is removed last, so a state in which the directory
  of the job is gone is the final one, with the job already out of the table. At the end
  the job is out of the table, the directory is gone when \<open>Cleanup\<close> succeeded, and
  the shutdown is started exactly when the retired job was the only one counted and the
  shutdown is not disabled. Every admitted \<open>SubmitJob\<close> ends with this sequence.
\<close>

theorem retirement_order:
  "activeJobs (hd (retirement ok jobID s)) = activeJobs s - 1
   \<and> jobDirs (hd (retirement ok jobID s)) = jobDirs s
   \<and> activeJobIDs (hd (retirement ok jobID s)) = activeJobIDs s
   \<and> (\<forall>st \<in> set (retirement ok jobID s). activeJobs st = activeJobs s - 1)
   \<and> (\<forall>st \<in> set (retirement ok jobID s).
         jobID \<in> jobDirs s \<and> jobID \<notin> jobDirs st
         \<longrightarrow> jobID \<notin> activeJobIDs st \<and> st = last (retirement ok jobID s))
   \<and> jobID \<notin> activeJobIDs (last (retirement ok jobID s))
   \<and> (ok \<longrightarrow> jobID \<notin> jobDirs (last (retirement ok jobID s)))
   \<and> (starts_shutdown disabled (last (retirement ok jobID s))
         \<longleftrightarrow> activeJobs s = 1 \<and> \<not> disabled)
   \<and> (activeJobs s < maxConcurrent s \<longrightarrow>
         (\<exists>before s3. fst (SubmitJob pf env s req)
                         = before @ retirement (cleanup_ok env) (req_JobId req) s3
                       \<and> activeJobs s3 = activeJobs s + 1
                       \<and> req_JobId req \<in> activeJobIDs s3))"
proof (intro conjI)
  show "activeJobs (hd (retirement ok jobID s)) = activeJobs s - 1"
    and "jobDirs (hd (retirement ok jobID s)) = jobDirs s"
    and "activeJobIDs (hd (retirement ok jobID s)) = activeJobIDs s"
    by (simp_all add: retirement_states)
  show "\<forall>st \<in> set (retirement ok jobID s). activeJobs st = activeJobs s - 1"
    by (simp add: retirement_states Cleanup_def)
  show "\<forall>st \<in> set (retirement ok jobID s).
         jobID \<in> jobDirs s \<and> jobID \<notin> jobDirs st
         \<longrightarrow> jobID \<notin> activeJobIDs st \<and> st = last (retirement ok jobID s)"
    by (simp add: retirement_states Cleanup_def)
  show "jobID \<notin> activeJobIDs (last (retirement ok jobID s))"
    by (simp add: retirement_states Cleanup_def)
  show "ok \<longrightarrow> jobID \<notin> jobDirs (last (retirement ok jobID s))"
    by (simp add: retirement_states Cleanup_def)
  show "starts_shutdown disabled (last (retirement ok jobID s))
         \<longleftrightarrow> activeJobs s = 1 \<and> \<not> disabled"
    by (auto simp: retirement_states Cleanup_def starts_shutdown_def)
  show "activeJobs s < maxConcurrent s \<longrightarrow>
         (\<exists>before s3. fst (SubmitJob pf env s req)
                         = before @ retirement (cleanup_ok env) (req_JobId req) s3
                       \<and> activeJobs s3 = activeJobs s + 1
                       \<and> req_JobId req \<in> activeJobIDs s3)"
  proof
    assume a: "activeJobs s < maxConcurrent s"
    obtain sent err encoded where b: "SubmitJob_body pf env req = (sent, err, encoded)"
      by (cases "SubmitJob_body pf env req")
    let ?s2 = "s\<lparr>activeJobs := activeJobs s + 1,
                  activeJobIDs := insert (req_JobId req) (activeJobIDs s)\<rparr>"
    let ?s3 = "if encoded \<and> creates_job_dir (encode env)
               then ?s2\<lparr>jobDirs := insert (req_JobId req) (jobDirs ?s2)\<rparr> else ?s2"
    have "fst (SubmitJob pf env s req)
          = [s\<lparr>activeJobs := activeJobs s + 1\<rparr>, ?s2, ?s3]
            @ retirement (cleanup_ok env) (req_JobId req) ?s3"
      using a by (simp add: SubmitJob_def b Let_def)
    moreover have "activeJobs ?s3 = activeJobs s + 1" by simp
    moreover have "req_JobId req \<in> activeJobIDs ?s3" by simp
    ultimately show "\<exists>before s3. fst (SubmitJob pf env s req)
                         = before @ retirement (cleanup_ok env) (req_JobId req) s3
                       \<and> activeJobs s3 = activeJobs s + 1
                       \<and> req_JobId req \<in> activeJobIDs s3"
      by blast
  qed
qed

theorem retirement_order_witness:
  "retirement True ''job1''
     \<lparr>activeJobs = 1, maxConcurrent = 1, activeJobIDs = {''job1''}, jobDirs = {''job1''}\<rparr>
   = [\<lparr>activeJobs = 0, maxConcurrent = 1, activeJobIDs = {''job1''}, jobDirs = {''job1''}\<rparr>,
      \<lparr>activeJobs = 0, maxConcurrent = 1, activeJobIDs = {}, jobDirs = {''job1''}\<rparr>,
      \<lparr>activeJobs = 0, maxConcurrent = 1, activeJobIDs = {}, jobDirs = {}\<rparr>]
   \<and> ''job1'' \<notin> jobDirs (last (retirement True ''job1''
        \<lparr>activeJobs = 1, maxConcurrent = 1, activeJobIDs = {''job1''}, jobDirs = {''job1''}\<rparr>))
   \<and> starts_shutdown False (last (retirement True ''job1''
        \<lparr>activeJobs = 1, maxConcurrent = 1, activeJobIDs = {''job1''}, jobDirs = {''job1''}\<rparr>))"
proof -
  let ?s = "\<lparr>activeJobs = 1, maxConcurrent = 1, activeJobIDs = {''job1''}, jobDirs = {''job1''}\<rparr>"
  have e: "retirement True ''job1'' ?s
   = [\<lparr>activeJobs = 0, maxConcurrent = 1, activeJobIDs = {''job1''}, jobDirs = {''job1''}\<rparr>,
      \<lparr>activeJobs = 0, maxConcurrent = 1, activeJobIDs = {}, jobDirs = {''job1''}\<rparr>,
      \<lparr>activeJobs = 0, maxConcurrent = 1, activeJobIDs = {}, jobDirs = {}\<rparr>]"
    by (simp add: retirement_def Cleanup_def)
  note t = retirement_order [of True "''job1''" ?s False]
  have d: "''job1'' \<notin> jobDirs (last (retirement True ''job1'' ?s))"
    using t by blast
  have "activeJobs ?s = 1 \<and> \<not> False" by simp
  then have h: "starts_shutdown False (last (retirement True ''job1'' ?s))"
    using t by blast
  show ?thesis using e d h by blast
qed

text \<open>Retiring the only job: after the first statement the counter reads zero and
  the job's directory still exists, in the deferred function alone and in a whole
  \<open>SubmitJob\<close> on an idle server (its fourth state).\<close>

theorem counter_zero_before_cleanup_counterexample:
  "activeJobs (hd (retirement True ''job1''
      \<lparr>activeJobs = 1, maxConcurrent = 1, activeJobIDs = {''job1''}, jobDirs = {''job1''}\<rparr>)) = 0
   \<and> ''job1'' \<in> jobDirs (hd (retirement True ''job1''
      \<lparr>activeJobs = 1, maxConcurrent = 1, activeJobIDs = {''job1''}, jobDirs = {''job1''}\<rparr>))
   \<and> activeJobs (fst (SubmitJob ParseFloat_digits
     \<lparr>encode = \<lparr>preset_err = None, mkdir_err = None, paths_err = None, pipe_err = None,
                 start_err = None, duration_probe = Inr 4,
                 stderr_lines = [''out_time_ms=9000000''], wait_err = None,
                 validate_err = None, output_path = ''/work/job1/output.mp4''\<rparr>,
      send_fails = (\<lambda>n. False), stat_err = None, upload = Inr ''file:///out/x.mp4'',
      cleanup_ok = True\<rparr>
     \<lparr>activeJobs = 0, maxConcurrent = 1, activeJobIDs = {}, jobDirs = {}\<rparr>
     \<lparr>req_JobId = ''job1'', req_InputUrl = ''https://example/x.mp4'',
      req_Preset = ''720p_h264'', req_OutputPath = ''out/x.mp4''\<rparr>) ! 3) = 0
   \<and> ''job1'' \<in> jobDirs (fst (SubmitJob ParseFloat_digits
     \<lparr>encode = \<lparr>preset_err = None, mkdir_err = None, paths_err = None, pipe_err = None,
                 start_err = None, duration_probe = Inr 4,
                 stderr_lines = [''out_time_ms=9000000''], wait_err = None,
                 validate_err = None, output_path = ''/work/job1/output.mp4''\<rparr>,
      send_fails = (\<lambda>n. False), stat_err = None, upload = Inr ''file:///out/x.mp4'',
      cleanup_ok = True\<rparr>
     \<lparr>activeJobs = 0, maxConcurrent = 1, activeJobIDs = {}, jobDirs = {}\<rparr>
     \<lparr>req_JobId = ''job1'', req_InputUrl = ''https://example/x.mp4'',
      req_Preset = ''720p_h264'', req_OutputPath = ''out/x.mp4''\<rparr>) ! 3)"
  unfolding SubmitJob_example
  by (simp add: retirement_def Cleanup_def)

end
